theory Spec2Isabelle
  imports Complex_Main "HOL-Library.Multiset" "HOL-Library.Char_ord" "HOL-Library.List_Lexorder"
begin

section \<open>Numbers and small library functions of the source\<close>

text \<open>
  The source computes on Python and numpy floats. The embedding uses exact rational
  arithmetic (\<^typ>\<open>rat\<close>): every value is finite, so \<open>np.isfinite\<close> holds of every
  value of the model, and a missing value (\<open>NaN\<close>, \<open>None\<close>) is written where the source
  can meet one, as \<open>None\<close> of an option type. Where a property depends on how floats
  round, the function is given a second time with the floating-point operations as
  parameters (the Baseline Comparator, in its own section below).
\<close>

text \<open>
  Python's \<open>round(x, n)\<close> on an exact number: to \<open>n\<close> decimals, a tie going to the even
  neighbour. On a float the program rounds the float's own value, which can fall on the
  other side of a tie of the exact value.
\<close>

definition round_py :: "rat \<Rightarrow> nat \<Rightarrow> rat" where
  "round_py x n =
     (let s = x * 10 ^ n; f = \<lfloor>s\<rfloor>; d = s - of_int f;
          r = (if d < 1 / 2 then f else if 1 / 2 < d then f + 1
               else if even f then f else f + 1)
      in of_int r / 10 ^ n)"

text \<open>\<open>Series.mean()\<close>; it is only called on series with at least three values.\<close>

definition mean :: "rat list \<Rightarrow> rat" where
  "mean xs = sum_list xs / of_nat (length xs)"

text \<open>\<open>Series.unique()\<close>: the distinct values, in the order of their first appearance.\<close>

fun unique :: "'a list \<Rightarrow> 'a list" where
  "unique [] = []"
| "unique (x # xs) = x # unique (removeAll x xs)"

text \<open>
  \<open>sorted(data, key=k, reverse=True)\<close>: descending by key and stable, elements of equal
  key keeping their original order. \<^const>\<open>sort_key\<close> is a stable insertion sort.
\<close>

definition sorted_desc :: "('a \<Rightarrow> rat) \<Rightarrow> 'a list \<Rightarrow> 'a list" where
  "sorted_desc k data = sort_key (\<lambda>x. - k x) data"

text \<open>
  Python's slices \<open>xs[:n]\<close> and \<open>xs[k:]\<close> for any integer bound: a negative bound counts
  from the end, and every bound is clamped to the list.
\<close>

definition slice_to :: "'a list \<Rightarrow> int \<Rightarrow> 'a list" where
  "slice_to xs n = (if 0 \<le> n then take (nat n) xs else take (length xs - nat (- n)) xs)"

definition slice_from :: "'a list \<Rightarrow> int \<Rightarrow> 'a list" where
  "slice_from xs k = (if 0 \<le> k then drop (nat k) xs else drop (length xs - nat (- k)) xs)"

section \<open>The inventory dataset and the Baseline Comparator\<close>

text \<open>
  A row of the cleaned inventory table. \<open>region_col\<close> is the cell of the region column
  the caller names (\<open>REGION_COLUMNS[granularity]\<close>); the month column is an integer
  \<open>YYYYMM\<close>; the metric columns have no missing value after cleaning.
\<close>

record 'r row =
  region_col :: 'r
  month_date_yyyymm :: int
  active_listing_count :: rat
  pending_listing_count :: rat
  median_days_on_market :: rat
  price_reduced_count :: rat

record 'r comparison =
  region :: 'r
  currentActive :: rat
  historicalActive :: rat
  changePercentage :: rat
  currentPending :: rat
  historicalPending :: rat
  pendingChange :: rat
  currentRatio :: rat
  historicalRatio :: rat
  ratioChange :: rat

text \<open>The local variables of \<open>calculate_metrics\<close>, for a non-empty table.\<close>

definition latest_month :: "'r row list \<Rightarrow> int" where
  "latest_month df = Max (set (map month_date_yyyymm df))"

definition pre_pandemic :: "'r row list \<Rightarrow> 'r row list" where
  "pre_pandemic df =
     filter (\<lambda>r. 201601 \<le> month_date_yyyymm r \<and> month_date_yyyymm r \<le> 201912 \<and>
                 month_date_yyyymm r mod 100 = latest_month df mod 100) df"

definition current_data :: "'r row list \<Rightarrow> 'r row list" where
  "current_data df = filter (\<lambda>r. month_date_yyyymm r = latest_month df) df"

definition valid_active :: "'r row list \<Rightarrow> 'r \<Rightarrow> rat list" where
  "valid_active df reg =
     filter (\<lambda>v. 0 < v)
       (map active_listing_count (filter (\<lambda>r. region_col r = reg) (pre_pandemic df)))"

definition valid_pending :: "'r row list \<Rightarrow> 'r \<Rightarrow> rat list" where
  "valid_pending df reg =
     filter (\<lambda>v. 0 < v)
       (map pending_listing_count (filter (\<lambda>r. region_col r = reg) (pre_pandemic df)))"

text \<open>
  The body of the loop over the regions of the latest month: \<open>None\<close> where the source
  appends nothing (the \<open>continue\<close>, the two \<open>else\<close> branches, and the \<open>IndexError\<close> of
  \<open>iloc[0]\<close> that the inner \<open>except\<close> catches). Where the three percent changes are
  computed every divisor is positive (the current active count, the two baseline means,
  which are at least 30, and their ratio), so the three values are finite and the test
  \<open>np.isfinite\<close> that guards the \<open>append\<close> holds.
\<close>

definition region_metrics :: "'r row list \<Rightarrow> 'r \<Rightarrow> 'r comparison option" where
  "region_metrics df reg =
     (case filter (\<lambda>r. region_col r = reg) (current_data df) of
        [] \<Rightarrow> None
      | current_row # _ \<Rightarrow>
          let current_active = active_listing_count current_row;
              current_pending = pending_listing_count current_row
          in if 3 \<le> length (valid_active df reg) \<and> 3 \<le> length (valid_pending df reg) \<and>
                0 < current_active \<and> 0 < current_pending
             then
               let hist_active_mean = mean (valid_active df reg);
                   hist_pending_mean = mean (valid_pending df reg)
               in if current_active < 30 \<or> current_pending < 30 \<or>
                     hist_active_mean < 30 \<or> hist_pending_mean < 30
                  then None
                  else
                    let current_ratio = current_pending / current_active;
                        historical_ratio = hist_pending_mean / hist_active_mean;
                        active_change =
                          ((current_active - hist_active_mean) / hist_active_mean) * 100;
                        pending_change =
                          ((current_pending - hist_pending_mean) / hist_pending_mean) * 100;
                        ratio_change =
                          ((current_ratio - historical_ratio) / historical_ratio) * 100
                    in Some \<lparr> region = reg,
                              currentActive = round_py current_active 2,
                              historicalActive = round_py hist_active_mean 2,
                              changePercentage = round_py active_change 2,
                              currentPending = round_py current_pending 2,
                              historicalPending = round_py hist_pending_mean 2,
                              pendingChange = round_py pending_change 2,
                              currentRatio = round_py current_ratio 4,
                              historicalRatio = round_py historical_ratio 4,
                              ratioChange = round_py ratio_change 2 \<rparr>
             else None)"

definition calculate_metrics :: "'r row list \<Rightarrow> 'r comparison list" where
  "calculate_metrics df =
     (if df = [] then []
      else List.map_filter (region_metrics df) (unique (map region_col (current_data df))))"

text \<open>
  The current row of a region, as the source reads it: the first row of the latest month
  with that region.
\<close>

definition current_row :: "'r row list \<Rightarrow> 'r \<Rightarrow> 'r row option" where
  "current_row df reg = find (\<lambda>r. region_col r = reg) (current_data df)"

text \<open>
  The synthetic dataset of the end-to-end example: one region, its row of the latest
  month \<open>y * 100 + m\<close>, and its rows of the same calendar month of 2016 to 2019, given as
  pairs of active and pending counts.
\<close>

definition mk_row :: "'r \<Rightarrow> int \<Rightarrow> rat \<Rightarrow> rat \<Rightarrow> 'r row" where
  "mk_row reg ym a p =
     \<lparr> region_col = reg, month_date_yyyymm = ym, active_listing_count = a,
       pending_listing_count = p, median_days_on_market = 1, price_reduced_count = 1 \<rparr>"

definition synthetic_metro ::
  "'r \<Rightarrow> int \<Rightarrow> int \<Rightarrow> rat \<Rightarrow> rat \<Rightarrow> (rat \<times> rat) list \<Rightarrow> 'r row list" where
  "synthetic_metro reg y m a p hist =
     mk_row reg (y * 100 + m) a p #
     map (\<lambda>(yr, (ha, hp)). mk_row reg (yr * 100 + m) ha hp) (zip [2016, 2017, 2018, 2019] hist)"

section \<open>The Ranker\<close>

text \<open>
  An entry of a ranking: the dictionary with the keys \<open>region\<close>, \<open>current\<close>,
  \<open>prePandemic\<close> and \<open>changePercentage\<close> (prefixed here, the first and the last being
  fields of a comparison result too).
\<close>

record 'r ranked =
  rk_region :: 'r
  rk_current :: rat
  rk_prePandemic :: rat
  rk_changePercentage :: rat

definition active_entry :: "'r comparison \<Rightarrow> 'r ranked" where
  "active_entry item =
     \<lparr> rk_region = region item, rk_current = currentActive item,
       rk_prePandemic = historicalActive item, rk_changePercentage = changePercentage item \<rparr>"

definition pending_entry :: "'r comparison \<Rightarrow> 'r ranked" where
  "pending_entry item =
     \<lparr> rk_region = region item, rk_current = currentPending item,
       rk_prePandemic = historicalPending item, rk_changePercentage = pendingChange item \<rparr>"

definition ratio_entry :: "'r comparison \<Rightarrow> 'r ranked" where
  "ratio_entry item =
     \<lparr> rk_region = region item, rk_current = currentRatio item,
       rk_prePandemic = historicalRatio item, rk_changePercentage = ratioChange item \<rparr>"

definition get_top_bottom ::
  "'r comparison list \<Rightarrow> string \<Rightarrow> int \<Rightarrow> 'r ranked list \<times> 'r ranked list" where
  "get_top_bottom data metric n =
     (if metric = ''active'' then
        let sorted_data = sorted_desc changePercentage data
        in (map active_entry (slice_to sorted_data n),
            map active_entry (slice_from sorted_data (- n)))
      else if metric = ''pending'' then
        let sorted_data = sorted_desc pendingChange data
        in (map pending_entry (slice_to sorted_data n),
            map pending_entry (slice_from sorted_data (- n)))
      else
        let sorted_data = sorted_desc ratioChange data
        in (map ratio_entry (slice_to sorted_data n),
            map ratio_entry (slice_from sorted_data (- n))))"

text \<open>The sort key and the projection the selector chooses, and the default \<open>n = 10\<close>.\<close>

definition metric_key :: "string \<Rightarrow> 'r comparison \<Rightarrow> rat" where
  "metric_key metric =
     (if metric = ''active'' then changePercentage
      else if metric = ''pending'' then pendingChange else ratioChange)"

definition metric_entry :: "string \<Rightarrow> 'r comparison \<Rightarrow> 'r ranked" where
  "metric_entry metric =
     (if metric = ''active'' then active_entry
      else if metric = ''pending'' then pending_entry else ratio_entry)"

definition default_n :: int where
  "default_n = 10"

text \<open>A Comparison Result with a given region and a given value of its percent changes.\<close>

definition sample_result :: "'r \<Rightarrow> rat \<Rightarrow> 'r comparison" where
  "sample_result reg c =
     \<lparr> region = reg, currentActive = 100, historicalActive = 80, changePercentage = c,
       currentPending = 80, historicalPending = 40, pendingChange = c,
       currentRatio = 4 / 5, historicalRatio = 1 / 2, ratioChange = c \<rparr>"

section \<open>The Affordability Merger\<close>

text \<open>
  A wide-format table: its column names, and its rows, each with the cell of the
  \<open>RegionName\<close> column and the numeric cell of every other column, \<open>None\<close> for \<open>NaN\<close>.
  A column that is not among \<open>columns\<close> raises \<open>KeyError\<close> when it is read.
\<close>

record frame_row =
  RegionName :: string
  cell :: "string \<Rightarrow> rat option"

record frame =
  columns :: "string list"
  rows :: "frame_row list"

definition empty :: "frame \<Rightarrow> bool" where
  "empty df \<longleftrightarrow> rows df = [] \<or> columns df = []"

record affordability =
  af_region :: string
  homeownerAffordability :: "rat option"
  renterAffordability :: rat
  affordabilityGap :: "rat option"

text \<open>\<open>re.match(r'\d{4}-\d{2}', col)\<close>: the pattern is matched at the start of the name.\<close>

definition digit :: "char \<Rightarrow> bool" where
  "digit c \<longleftrightarrow> c \<in> set ''0123456789''"

fun date_match :: "string \<Rightarrow> bool" where
  "date_match (a # b # c # d # e # f # g # _) =
     (digit a \<and> digit b \<and> digit c \<and> digit d \<and> e = CHR ''-'' \<and> digit f \<and> digit g)"
| "date_match _ = False"

text \<open>
  The body of the loop over the rows of the homeowner table: \<open>None\<close> at each \<open>continue\<close>
  (no renter row; \<open>KeyError\<close> on a renter table without the latest column; a renter value
  that is \<open>NaN\<close> or zero).
\<close>

definition affordability_row :: "frame \<Rightarrow> string \<Rightarrow> frame_row \<Rightarrow> affordability option" where
  "affordability_row renter_df latest homeowner_row =
     (let region = RegionName homeowner_row
      in case filter (\<lambda>r. RegionName r = region) (rows renter_df) of
           [] \<Rightarrow> None
         | renter_row # _ \<Rightarrow>
             if latest \<notin> set (columns renter_df) then None
             else case cell renter_row latest of
                    None \<Rightarrow> None
                  | Some renter_value \<Rightarrow>
                      if renter_value = 0 then None
                      else
                        let homeowner_value =
                              (case cell homeowner_row latest of
                                 None \<Rightarrow> None
                               | Some v \<Rightarrow> if v = 0 then None else Some v);
                            affordability_gap =
                              (case homeowner_value of
                                 None \<Rightarrow> None
                               | Some v \<Rightarrow> Some (v - renter_value))
                        in Some \<lparr> af_region = region,
                                  homeownerAffordability = homeowner_value,
                                  renterAffordability = renter_value,
                                  affordabilityGap = affordability_gap \<rparr>)"

text \<open>The sort key of the results that have a gap.\<close>

definition gap_key :: "affordability \<Rightarrow> rat" where
  "gap_key r = the (affordabilityGap r)"

text \<open>
  The split of the results and the sort of the ones with a gap, which both
  \<open>calculate_affordability_metrics\<close> and \<open>get_affordability_summary\<close> perform.
\<close>

definition sorted_valid_results :: "affordability list \<Rightarrow> affordability list" where
  "sorted_valid_results results =
     sorted_desc gap_key (filter (\<lambda>r. affordabilityGap r \<noteq> None) results)"

definition invalid_results :: "affordability list \<Rightarrow> affordability list" where
  "invalid_results results = filter (\<lambda>r. affordabilityGap r = None) results"

text \<open>The date columns of the homeowner table and the latest of them, \<open>sorted(...)[-1]\<close>.\<close>

definition date_columns :: "frame \<Rightarrow> string list" where
  "date_columns df = filter date_match (columns df)"

definition latest_column :: "frame \<Rightarrow> string" where
  "latest_column df = last (sort (date_columns df))"

text \<open>
  A homeowner table without a date column raises \<open>IndexError\<close> at \<open>[-1]\<close>, and the outer
  \<open>except\<close> returns the empty list.
\<close>

definition calculate_affordability_metrics :: "frame \<Rightarrow> frame \<Rightarrow> affordability list" where
  "calculate_affordability_metrics homeowner_df renter_df =
     (if empty homeowner_df \<or> empty renter_df then []
      else if date_columns homeowner_df = [] then []
      else
        let results =
              List.map_filter (affordability_row renter_df (latest_column homeowner_df))
                (rows homeowner_df)
        in sorted_valid_results results @ invalid_results results)"

text \<open>A table with the one date column \<open>2024-01-31\<close> and the given regions and values.\<close>

definition sample_frame :: "(string \<times> rat option) list \<Rightarrow> frame" where
  "sample_frame regions =
     \<lparr> columns = [''RegionName'', ''2024-01-31''],
       rows = map (\<lambda>(name, v). \<lparr> RegionName = name, cell = (\<lambda>c. v) \<rparr>) regions \<rparr>"

record summary =
  leastAffordable :: "affordability list"
  mostAffordable :: "affordability list"

text \<open>
  \<open>get_affordability_summary\<close>, as a function of the two tables it fetches (an empty table
  standing for a failed fetch).
\<close>

definition get_affordability_summary :: "frame \<Rightarrow> frame \<Rightarrow> summary" where
  "get_affordability_summary homeowner_df renter_df =
     (if empty homeowner_df \<or> empty renter_df
      then \<lparr> leastAffordable = [], mostAffordable = [] \<rparr>
      else
        let results = calculate_affordability_metrics homeowner_df renter_df
        in if results = [] then \<lparr> leastAffordable = [], mostAffordable = [] \<rparr>
           else
             let sorted_results = sorted_valid_results results @ invalid_results results
             in \<lparr> leastAffordable = slice_to sorted_results 10,
                  mostAffordable = rev (slice_from (sorted_valid_results results) (- 10)) \<rparr>)"

section \<open>The Trend Estimator\<close>

text \<open>
  An element of the input is \<open>None\<close> or a float, which may be \<open>NaN\<close>. The valid data are
  the pairs of an index and a value that is neither.
\<close>

datatype num = NaN | Num rat

definition valid_data :: "num option list \<Rightarrow> (nat \<times> rat) list" where
  "valid_data data =
     List.map_filter (\<lambda>(i, x). case x of Some (Num v) \<Rightarrow> Some (i, v) | _ \<Rightarrow> None)
       (enumerate 0 data)"

text \<open>
  \<open>np.polyfit(x, y, 1)\<close>: the slope and the intercept of the least-squares line, here by
  the normal equations in exact arithmetic. The rounding of numpy's float64 fit is not
  modelled.
\<close>

definition polyfit :: "(nat \<times> rat) list \<Rightarrow> rat \<times> rat" where
  "polyfit pts =
     (let n = of_nat (length pts);
          sx = (\<Sum>(i, v) \<leftarrow> pts. of_nat i);
          sy = (\<Sum>(i, v) \<leftarrow> pts. v);
          sxx = (\<Sum>(i, v) \<leftarrow> pts. of_nat i * of_nat i);
          sxy = (\<Sum>(i, v) \<leftarrow> pts. of_nat i * v);
          slope = (n * sxy - sx * sy) / (n * sxx - sx * sx);
          intercept = (sy - slope * sx) / n
      in (slope, intercept))"

definition calculate_regression_trend :: "num option list \<Rightarrow> rat option list" where
  "calculate_regression_trend data =
     (if length data < 3 then replicate (length data) None
      else if length (valid_data data) < 3 then replicate (length data) None
      else
        let used = slice_from (valid_data data) (- 6);
            first = fst (hd used);
            (slope, intercept) = polyfit used
        in map (\<lambda>i. if first \<le> i then Some (slope * of_nat i + intercept) else None)
             [0 ..< length data])"

section \<open>The Fetcher, the Data Cleaner and the metrics endpoint\<close>

text \<open>
  A cell of a region column as the table library holds it: a string, an integer, or the
  missing value. Two cells of different kinds are never equal, as Python's \<open>==\<close> between
  a \<open>str\<close> and an \<open>int\<close> is false.
\<close>

datatype cellv = StrCell string | IntCell int | MissingCell

text \<open>Python's \<open>str\<close> of an integer, and \<open>astype(str)\<close> on a cell.\<close>

definition digit_char :: "nat \<Rightarrow> char" where
  "digit_char d = ''0123456789'' ! (d mod 10)"

function str_nat :: "nat \<Rightarrow> string" where
  "str_nat n = (if n < 10 then [digit_char n] else str_nat (n div 10) @ [digit_char n])"
  by pat_completeness auto
termination
  by (relation "measure (\<lambda>n. n)") auto

declare str_nat.simps [simp del]

definition str_int :: "int \<Rightarrow> string" where
  "str_int i = (if i < 0 then CHR ''-'' # str_nat (nat (- i)) else str_nat (nat i))"

fun astype_str :: "cellv \<Rightarrow> cellv" where
  "astype_str (StrCell s) = StrCell s"
| "astype_str (IntCell i) = StrCell (str_int i)"
| "astype_str MissingCell = StrCell ''nan''"

text \<open>
  A row as \<open>read_csv\<close> returns it, and then \<open>to_numeric(errors='coerce')\<close>: a field that is
  empty or not a number is \<open>None\<close>.
\<close>

record raw_row =
  raw_region :: cellv
  raw_month :: "int option"
  raw_active :: "rat option"
  raw_pending :: "rat option"
  raw_days :: "rat option"
  raw_reduced :: "rat option"

text \<open>\<open>dropna\<close> on the month and the four numeric columns.\<close>

definition dropna :: "raw_row list \<Rightarrow> cellv row list" where
  "dropna chunk =
     List.map_filter
       (\<lambda>r. case (raw_month r, raw_active r, raw_pending r, raw_days r, raw_reduced r) of
               (Some m, Some a, Some p, Some d, Some c) \<Rightarrow>
                 Some \<lparr> region_col = raw_region r, month_date_yyyymm = m,
                        active_listing_count = a, pending_listing_count = p,
                        median_days_on_market = d, price_reduced_count = c \<rparr>
             | _ \<Rightarrow> None)
       chunk"

text \<open>\<open>read_csv(chunksize=k)\<close>: the rows in chunks of \<open>k\<close>.\<close>

function chunks :: "nat \<Rightarrow> 'a list \<Rightarrow> 'a list list" where
  "chunks k xs = (if k = 0 \<or> xs = [] then [] else take k xs # chunks k (drop k xs))"
  by pat_completeness auto
termination
  by (relation "measure (\<lambda>(k, xs). length xs)") auto

declare chunks.simps [simp del]

text \<open>
  \<open>fetch_realtor_data\<close>, as a function of the granularity and of the parsed response:
  \<open>None\<close> for every failure the source catches (a network error, a status that is not
  2xx, an empty body, a parse error), on which the empty table is returned.
\<close>

definition fetch_realtor_data :: "string \<Rightarrow> raw_row list option \<Rightarrow> cellv row list" where
  "fetch_realtor_data granularity response =
     (if granularity \<notin> set [''national'', ''state'', ''metro'', ''county'', ''zip''] then []
      else case response of
             None \<Rightarrow> []
           | Some raw \<Rightarrow>
               if granularity \<in> set [''zip'', ''county''] then
                 let cleaned = map dropna (chunks 10000 raw)
                 in if cleaned = [] then []
                    else
                      let df = concat cleaned
                      in if granularity = ''zip''
                         then map (\<lambda>r. r\<lparr>region_col := astype_str (region_col r)\<rparr>) df
                         else df
               else dropna raw)"

text \<open>
  An entry of a metric's series; \<open>month\<close> is the label \<open>YYYY-MM\<close>. The metrics dictionary
  has one series for each of its five keys.
\<close>

record point =
  pt_month :: string
  pt_current :: "rat option"
  pt_historical :: "rat option"
  pt_percentChange :: "rat option"

record metrics =
  ts_active_listing_count :: "point list"
  ts_pending_listing_count :: "point list"
  ts_pending_ratio :: "point list"
  ts_median_days_on_market :: "point list"
  ts_price_reduced_count :: "point list"

datatype response = Empty_Object | Metrics metrics

text \<open>The label \<open>f"{int(month//100)}-{int(month%100):02d}"\<close>.\<close>

definition month_str :: "int \<Rightarrow> string" where
  "month_str month =
     str_int (month div 100) @ ''-'' @
     (if month mod 100 < 10 then ''0'' @ str_int (month mod 100) else str_int (month mod 100))"

definition historical_data :: "'r row list \<Rightarrow> int \<Rightarrow> 'r row list" where
  "historical_data df month =
     filter (\<lambda>r. 201601 \<le> month_date_yyyymm r \<and> month_date_yyyymm r \<le> 201912 \<and>
                 month_date_yyyymm r mod 100 = month mod 100) df"

text \<open>
  The entry of one metric column for one month; \<open>None\<close> when \<open>iloc[0]\<close> raises and the
  bare \<open>except\<close> skips the entry.
\<close>

definition metric_point ::
  "('r row \<Rightarrow> rat) \<Rightarrow> 'r row list \<Rightarrow> 'r row list \<Rightarrow> int \<Rightarrow> point option" where
  "metric_point metric df month_data month =
     (case month_data of
        [] \<Rightarrow> None
      | r # _ \<Rightarrow>
          let current = metric r;
              valid_historical = filter (\<lambda>h. 0 < metric h) (historical_data df month);
              historical =
                (if 3 \<le> length valid_historical then Some (mean (map metric valid_historical))
                 else None);
              pct_change =
                (case historical of
                   None \<Rightarrow> None
                 | Some h \<Rightarrow> Some (((current - h) / h) * 100))
          in Some \<lparr> pt_month = month_str month, pt_current = Some current,
                    pt_historical = historical,
                    pt_percentChange = map_option (\<lambda>p. round_py p 2) pct_change \<rparr>)"

text \<open>The entry of the pending ratio for one month; \<open>None\<close> when nothing is appended.\<close>

definition ratio_point :: "'r row list \<Rightarrow> 'r row list \<Rightarrow> int \<Rightarrow> point option" where
  "ratio_point df month_data month =
     (case month_data of
        [] \<Rightarrow> None
      | r # _ \<Rightarrow>
          let current_active = active_listing_count r;
              current_pending = pending_listing_count r;
              valid_hist_active =
                filter (\<lambda>h. 0 < active_listing_count h) (historical_data df month);
              valid_hist_pending =
                filter (\<lambda>h. 0 < pending_listing_count h) (historical_data df month)
          in if 3 \<le> length valid_hist_active \<and> 3 \<le> length valid_hist_pending then
               let hist_active = mean (map active_listing_count valid_hist_active);
                   hist_pending = mean (map pending_listing_count valid_hist_pending)
               in if 0 < current_active \<and> 0 < hist_active then
                    let current_ratio = current_pending / current_active;
                        historical_ratio = hist_pending / hist_active;
                        pct_change =
                          ((current_ratio - historical_ratio) / historical_ratio) * 100
                    in Some \<lparr> pt_month = month_str month,
                              pt_current = Some (round_py current_ratio 4),
                              pt_historical = Some (round_py historical_ratio 4),
                              pt_percentChange = Some (round_py pct_change 2) \<rparr>
                  else None
             else
               Some \<lparr> pt_month = month_str month,
                      pt_current =
                        (if 0 < current_active
                         then Some (round_py (current_pending / current_active) 4) else None),
                      pt_historical = None, pt_percentChange = None \<rparr>)"

text \<open>The part of \<open>get_metrics\<close> after the region filter, on a non-empty table.\<close>

definition region_series :: "'r row list \<Rightarrow> metrics" where
  "region_series df =
     (let twelve_months_ago = latest_month df - 100;
          recent_data = filter (\<lambda>r. twelve_months_ago < month_date_yyyymm r) df;
          months = sort (remdups (map month_date_yyyymm recent_data));
          month_data = (\<lambda>month. filter (\<lambda>r. month_date_yyyymm r = month) recent_data);
          series = (\<lambda>metric.
            List.map_filter (\<lambda>month. metric_point metric df (month_data month) month) months)
      in \<lparr> ts_active_listing_count = series active_listing_count,
           ts_pending_listing_count = series pending_listing_count,
           ts_pending_ratio =
             List.map_filter (\<lambda>month. ratio_point df (month_data month) month) months,
           ts_median_days_on_market = series median_days_on_market,
           ts_price_reduced_count = series price_reduced_count \<rparr>)"

text \<open>
  \<open>get_metrics\<close>, as a function of the path parameters and the fetched table. \<open>int_py\<close>
  is Python's \<open>int\<close> on a string, \<open>None\<close> where it raises \<open>ValueError\<close>, which the outer
  \<open>except\<close> turns into the empty object.
\<close>

definition get_metrics ::
  "(string \<Rightarrow> int option) \<Rightarrow> string \<Rightarrow> string \<Rightarrow> cellv row list \<Rightarrow> response" where
  "get_metrics int_py granularity reg df =
     (if df = [] then Empty_Object
      else
        case (if granularity = ''county''
              then Some (filter (\<lambda>r. region_col r = StrCell reg) df)
              else if granularity = ''zip'' then
                (case int_py reg of
                   None \<Rightarrow> None
                 | Some k \<Rightarrow> Some (filter (\<lambda>r. region_col r = IntCell k) df))
              else Some (filter (\<lambda>r. region_col r = StrCell reg) df)) of
          None \<Rightarrow> Empty_Object
        | Some df' \<Rightarrow> if df' = [] then Empty_Object else Metrics (region_series df'))"

text \<open>A parsed response with one row, for the postal code \<open>10001\<close>.\<close>

definition zip_sample :: "raw_row list" where
  "zip_sample =
     [\<lparr> raw_region = StrCell ''10001'', raw_month = Some 202401, raw_active = Some 120,
        raw_pending = Some 60, raw_days = Some 40, raw_reduced = Some 10 \<rparr>]"

section \<open>The Baseline Comparator on floating-point numbers\<close>

text \<open>
  \<open>calculate_metrics\<close> once more, with nothing assumed of the arithmetic. The values of
  the table are of a type \<open>'f\<close> of floating-point numbers, and every operation the source
  applies to them is a parameter: the conversion of an integer literal, \<open>-\<close>, \<open>/\<close>, \<open>*\<close>,
  the comparison \<open><\<close>, \<open>Series.mean\<close>, \<open>np.isfinite\<close> and \<open>round\<close>, which is Python's own
  on the current values and their ratio (\<open>fl_round_py\<close>, on a Python \<open>float\<close>) and numpy's
  on every value computed from a baseline mean (\<open>fl_round\<close>, on a \<open>numpy.float64\<close>). The
  cell of the region column is \<open>None\<close> when the name is missing (\<open>NaN\<close>). No operation
  raises where it is applied: the one division of two Python floats has a divisor that
  passed the test \<open>current_active > 0\<close>.
\<close>

record 'f arith =
  fl_of_int :: "int \<Rightarrow> 'f"
  fl_sub :: "'f \<Rightarrow> 'f \<Rightarrow> 'f"
  fl_div :: "'f \<Rightarrow> 'f \<Rightarrow> 'f"
  fl_mul :: "'f \<Rightarrow> 'f \<Rightarrow> 'f"
  fl_less :: "'f \<Rightarrow> 'f \<Rightarrow> bool"
  fl_round :: "'f \<Rightarrow> nat \<Rightarrow> 'f"
  fl_round_py :: "'f \<Rightarrow> nat \<Rightarrow> 'f"
  fl_mean :: "'f list \<Rightarrow> 'f"
  fl_isfinite :: "'f \<Rightarrow> bool"

record ('r, 'f) frow =
  f_region :: "'r option"
  f_month :: int
  f_active :: 'f
  f_pending :: 'f

record ('r, 'f) fcomparison =
  fl_region :: "'r option"
  fl_currentActive :: 'f
  fl_historicalActive :: 'f
  fl_changePercentage :: 'f
  fl_currentPending :: 'f
  fl_historicalPending :: 'f
  fl_pendingChange :: 'f
  fl_currentRatio :: 'f
  fl_historicalRatio :: 'f
  fl_ratioChange :: 'f

text \<open>
  The comparison \<open>column == region\<close> of a cell with a value of \<open>unique()\<close>: a missing name
  equals nothing, itself included.
\<close>

definition eq_cell :: "'r option \<Rightarrow> 'r option \<Rightarrow> bool" where
  "eq_cell c reg \<longleftrightarrow> c = reg \<and> reg \<noteq> None"

definition latest_month_fl :: "('r, 'f) frow list \<Rightarrow> int" where
  "latest_month_fl df = Max (set (map f_month df))"

definition pre_pandemic_fl :: "('r, 'f) frow list \<Rightarrow> ('r, 'f) frow list" where
  "pre_pandemic_fl df =
     filter (\<lambda>r. 201601 \<le> f_month r \<and> f_month r \<le> 201912 \<and>
                 f_month r mod 100 = latest_month_fl df mod 100) df"

definition current_data_fl :: "('r, 'f) frow list \<Rightarrow> ('r, 'f) frow list" where
  "current_data_fl df = filter (\<lambda>r. f_month r = latest_month_fl df) df"

definition region_metrics_fl ::
  "'f arith \<Rightarrow> ('r, 'f) frow list \<Rightarrow> 'r option \<Rightarrow> ('r, 'f) fcomparison option" where
  "region_metrics_fl ops df reg =
     (case filter (\<lambda>r. eq_cell (f_region r) reg) (current_data_fl df) of
        [] \<Rightarrow> None
      | row0 # _ \<Rightarrow>
          let current_active = f_active row0;
              current_pending = f_pending row0;
              historical_data = filter (\<lambda>r. eq_cell (f_region r) reg) (pre_pandemic_fl df);
              hist_active = map f_active historical_data;
              hist_pending = map f_pending historical_data;
              valid_active = filter (\<lambda>v. fl_less ops (fl_of_int ops 0) v) hist_active;
              valid_pending = filter (\<lambda>v. fl_less ops (fl_of_int ops 0) v) hist_pending
          in if 3 \<le> length valid_active \<and> 3 \<le> length valid_pending \<and>
                fl_less ops (fl_of_int ops 0) current_active \<and>
                fl_less ops (fl_of_int ops 0) current_pending
             then
               let hist_active_mean = fl_mean ops valid_active;
                   hist_pending_mean = fl_mean ops valid_pending
               in if fl_less ops current_active (fl_of_int ops 30) \<or>
                     fl_less ops current_pending (fl_of_int ops 30) \<or>
                     fl_less ops hist_active_mean (fl_of_int ops 30) \<or>
                     fl_less ops hist_pending_mean (fl_of_int ops 30)
                  then None
                  else
                    let current_ratio = fl_div ops current_pending current_active;
                        historical_ratio = fl_div ops hist_pending_mean hist_active_mean;
                        active_change =
                          fl_mul ops
                            (fl_div ops (fl_sub ops current_active hist_active_mean)
                               hist_active_mean)
                            (fl_of_int ops 100);
                        pending_change =
                          fl_mul ops
                            (fl_div ops (fl_sub ops current_pending hist_pending_mean)
                               hist_pending_mean)
                            (fl_of_int ops 100);
                        ratio_change =
                          fl_mul ops
                            (fl_div ops (fl_sub ops current_ratio historical_ratio)
                               historical_ratio)
                            (fl_of_int ops 100)
                    in if fl_isfinite ops active_change \<and> fl_isfinite ops pending_change \<and>
                          fl_isfinite ops ratio_change
                       then
                         Some \<lparr> fl_region = reg,
                                fl_currentActive = fl_round_py ops current_active 2,
                                fl_historicalActive = fl_round ops hist_active_mean 2,
                                fl_changePercentage = fl_round ops active_change 2,
                                fl_currentPending = fl_round_py ops current_pending 2,
                                fl_historicalPending = fl_round ops hist_pending_mean 2,
                                fl_pendingChange = fl_round ops pending_change 2,
                                fl_currentRatio = fl_round_py ops current_ratio 4,
                                fl_historicalRatio = fl_round ops historical_ratio 4,
                                fl_ratioChange = fl_round ops ratio_change 2 \<rparr>
                       else None
             else None)"

definition calculate_metrics_fl ::
  "'f arith \<Rightarrow> ('r, 'f) frow list \<Rightarrow> ('r, 'f) fcomparison list" where
  "calculate_metrics_fl ops df =
     (if df = [] then []
      else List.map_filter (region_metrics_fl ops df)
             (unique (map f_region (current_data_fl df))))"

subsection \<open>The words of the specification\<close>

text \<open>
  The reference calendar month: the trailing two digits of the latest \<open>year_month\<close>
  present.
\<close>

definition spec_reference_month :: "('r, 'f) frow list \<Rightarrow> int" where
  "spec_reference_month df = Max (f_month ` set df) mod 100"

text \<open>
  The current row of a region: the first row of the table that is of the latest
  \<open>year_month\<close> and of that region.
\<close>

definition spec_current_row :: "('r, 'f) frow list \<Rightarrow> 'r \<Rightarrow> ('r, 'f) frow option" where
  "spec_current_row df reg =
     find (\<lambda>r. f_month r = Max (f_month ` set df) \<and> f_region r = Some reg) df"

text \<open>
  The positive baseline-window values of a column for a region: the values, greater than
  zero, of the rows of that region with \<open>year_month\<close> in \<open>[201601, 201912]\<close> whose trailing
  two digits are the reference calendar month.
\<close>

definition spec_baseline_values ::
  "'f arith \<Rightarrow> (('r, 'f) frow \<Rightarrow> 'f) \<Rightarrow> ('r, 'f) frow list \<Rightarrow> 'r \<Rightarrow> 'f list" where
  "spec_baseline_values ops col df reg =
     map col
       (filter (\<lambda>r. f_region r = Some reg \<and>
                    201601 \<le> f_month r \<and> f_month r \<le> 201912 \<and>
                    f_month r mod 100 = spec_reference_month df \<and>
                    fl_less ops (fl_of_int ops 0) (col r)) df)"

text \<open>\<open>round((current - historical) / historical * 100, 2)\<close>, in the operations given.\<close>

definition spec_percent_change :: "'f arith \<Rightarrow> 'f \<Rightarrow> 'f \<Rightarrow> 'f" where
  "spec_percent_change ops current historical =
     fl_round ops
       (fl_mul ops (fl_div ops (fl_sub ops current historical) historical) (fl_of_int ops 100))
       2"

text \<open>
  The exact operations on rational numbers, and a table of two regions on which they are
  run: \<open>Metro A\<close> with a baseline row that is not positive and one outside the window, and
  \<open>Metro B\<close> with too short a baseline.
\<close>

definition exact_ops :: "rat arith" where
  "exact_ops =
     \<lparr> fl_of_int = of_int, fl_sub = (-), fl_div = (/), fl_mul = (*), fl_less = (<),
       fl_round = round_py, fl_round_py = round_py, fl_mean = mean,
       fl_isfinite = (\<lambda>x. True) \<rparr>"

definition mk_frow :: "string \<Rightarrow> int \<Rightarrow> rat \<Rightarrow> rat \<Rightarrow> (string, rat) frow" where
  "mk_frow reg ym a p = \<lparr> f_region = Some reg, f_month = ym, f_active = a, f_pending = p \<rparr>"

definition two_metros :: "(string, rat) frow list" where
  "two_metros =
     [mk_frow ''Metro A'' 201503 500 500, mk_frow ''Metro A'' 201603 160 80,
      mk_frow ''Metro A'' 201703 0 80, mk_frow ''Metro A'' 201803 160 80,
      mk_frow ''Metro A'' 201903 160 80, mk_frow ''Metro A'' 201904 900 900,
      mk_frow ''Metro B'' 201803 100 100, mk_frow ''Metro B'' 202403 100 100,
      mk_frow ''Metro A'' 202403 200 120]"

text \<open>
  A table and a result of the exact model of the sections above, as a table and a result
  here: every region name present, the values the same.
\<close>

definition lift_row :: "'r row \<Rightarrow> ('r, rat) frow" where
  "lift_row r =
     \<lparr> f_region = Some (region_col r), f_month = month_date_yyyymm r,
       f_active = active_listing_count r, f_pending = pending_listing_count r \<rparr>"

definition lift_result :: "'r comparison \<Rightarrow> ('r, rat) fcomparison" where
  "lift_result c =
     \<lparr> fl_region = Some (region c), fl_currentActive = currentActive c,
       fl_historicalActive = historicalActive c, fl_changePercentage = changePercentage c,
       fl_currentPending = currentPending c, fl_historicalPending = historicalPending c,
       fl_pendingChange = pendingChange c, fl_currentRatio = currentRatio c,
       fl_historicalRatio = historicalRatio c, fl_ratioChange = ratioChange c \<rparr>"

section \<open>Properties of the Baseline Comparator\<close>

lemma set_unique [simp]: "set (unique xs) = set xs"
  by (induction xs rule: unique.induct) auto

lemma distinct_unique [simp]: "distinct (unique xs)"
  by (induction xs rule: unique.induct) auto

lemma find_filter_hd:
  "find P xs = (case filter P xs of [] \<Rightarrow> None | x # _ \<Rightarrow> Some x)"
  by (induction xs) simp_all

lemma set_map_filter_eq: "set (List.map_filter f xs) = {y. \<exists>x \<in> set xs. f x = Some y}"
  by (induction xs) (auto simp: List.map_filter_def)

text \<open>What a result of the loop body says about the region it was computed for.\<close>

lemma region_metrics_SomeD:
  assumes "region_metrics df reg = Some res"
  shows "\<exists>cur. current_row df reg = Some cur \<and>
           3 \<le> length (valid_active df reg) \<and> 3 \<le> length (valid_pending df reg) \<and>
           0 < active_listing_count cur \<and> 0 < pending_listing_count cur \<and>
           30 \<le> active_listing_count cur \<and> 30 \<le> pending_listing_count cur \<and>
           30 \<le> mean (valid_active df reg) \<and> 30 \<le> mean (valid_pending df reg) \<and>
           region res = reg \<and>
           changePercentage res =
             round_py ((active_listing_count cur - mean (valid_active df reg)) /
                        mean (valid_active df reg) * 100) 2 \<and>
           pendingChange res =
             round_py ((pending_listing_count cur - mean (valid_pending df reg)) /
                        mean (valid_pending df reg) * 100) 2 \<and>
           ratioChange res =
             round_py ((pending_listing_count cur / active_listing_count cur -
                         mean (valid_pending df reg) / mean (valid_active df reg)) /
                        (mean (valid_pending df reg) / mean (valid_active df reg)) * 100) 2"
  using assms
  unfolding region_metrics_def current_row_def find_filter_hd
  by (auto simp add: Let_def not_less
      simp del: times_divide_eq_left times_divide_eq_right
        divide_divide_eq_left divide_divide_eq_right
      split: list.splits if_splits)

lemma calculate_metrics_mem:
  "res \<in> set (calculate_metrics df) \<Longrightarrow> \<exists>reg. region_metrics df reg = Some res"
  unfolding calculate_metrics_def
  by (auto simp: List.map_filter_def split: if_splits)

subsection \<open>The synthetic dataset, evaluated\<close>

lemma synthetic_unfold:
  "synthetic_metro reg y m a p [(a1, p1), (a2, p2), (a3, p3), (a4, p4)] =
     [mk_row reg (y * 100 + m) a p, mk_row reg (201600 + m) a1 p1,
      mk_row reg (201700 + m) a2 p2, mk_row reg (201800 + m) a3 p3,
      mk_row reg (201900 + m) a4 p4]"
  by (simp add: synthetic_metro_def)

lemma synthetic_ne: "synthetic_metro reg y m a p h \<noteq> []"
  by (simp add: synthetic_metro_def)

lemma baseline_months:
  fixes m :: int
  shows "(201600 + m) mod 100 = m mod 100" "(201700 + m) mod 100 = m mod 100"
    "(201800 + m) mod 100 = m mod 100" "(201900 + m) mod 100 = m mod 100"
    "(y * 100 + m) mod 100 = m mod 100"
  using mod_mult_self4[of 100 2016 m] mod_mult_self4[of 100 2017 m]
    mod_mult_self4[of 100 2018 m] mod_mult_self4[of 100 2019 m]
  by simp_all

lemma synthetic_latest:
  assumes "2020 \<le> y" "1 \<le> m" "m \<le> 12"
  shows "latest_month (synthetic_metro reg y m a p [(a1, p1), (a2, p2), (a3, p3), (a4, p4)])
           = y * 100 + m"
  using assms by (simp add: latest_month_def synthetic_unfold mk_row_def)

lemma synthetic_current:
  assumes "2020 \<le> y" "1 \<le> m" "m \<le> 12"
  shows "current_data (synthetic_metro reg y m a p [(a1, p1), (a2, p2), (a3, p3), (a4, p4)])
           = [mk_row reg (y * 100 + m) a p]"
  using assms unfolding current_data_def synthetic_latest[OF assms]
  by (simp add: synthetic_unfold mk_row_def)

lemma synthetic_pre:
  assumes "2020 \<le> y" "1 \<le> m" "m \<le> 12"
  shows "pre_pandemic (synthetic_metro reg y m a p [(a1, p1), (a2, p2), (a3, p3), (a4, p4)]) =
     [mk_row reg (201600 + m) a1 p1, mk_row reg (201700 + m) a2 p2,
      mk_row reg (201800 + m) a3 p3, mk_row reg (201900 + m) a4 p4]"
  using assms unfolding pre_pandemic_def synthetic_latest[OF assms]
  by (simp add: synthetic_unfold mk_row_def baseline_months)

lemma synthetic_valid:
  assumes "2020 \<le> y" "1 \<le> m" "m \<le> 12"
    and "0 < a1" "0 < a2" "0 < a3" "0 < a4" "0 < p1" "0 < p2" "0 < p3" "0 < p4"
  shows "valid_active (synthetic_metro reg y m a p [(a1, p1), (a2, p2), (a3, p3), (a4, p4)]) reg
           = [a1, a2, a3, a4]"
    and "valid_pending (synthetic_metro reg y m a p [(a1, p1), (a2, p2), (a3, p3), (a4, p4)]) reg
           = [p1, p2, p3, p4]"
  using assms(4-11)
  by (simp_all add: valid_active_def valid_pending_def synthetic_pre[OF assms(1-3)] mk_row_def)

lemma mean4: "a1 + a2 + a3 + a4 = 4 * h \<Longrightarrow> mean [a1, a2, a3, a4] = h"
  by (simp add: mean_def)

lemma synthetic_calc:
  assumes "2020 \<le> y" "1 \<le> m" "m \<le> 12"
  shows "calculate_metrics (synthetic_metro reg y m a p [(a1, p1), (a2, p2), (a3, p3), (a4, p4)])
    = (case region_metrics
              (synthetic_metro reg y m a p [(a1, p1), (a2, p2), (a3, p3), (a4, p4)]) reg
       of None \<Rightarrow> [] | Some r \<Rightarrow> [r])"
  by (simp add: calculate_metrics_def synthetic_ne List.map_filter_def
        synthetic_current[OF assms] mk_row_def split: option.splits)

lemma synthetic_region:
  assumes "2020 \<le> y" "1 \<le> m" "m \<le> 12"
    and "0 < a1" "0 < a2" "0 < a3" "0 < a4" "a1 + a2 + a3 + a4 = 4 * ha"
    and "0 < p1" "0 < p2" "0 < p3" "0 < p4" "p1 + p2 + p3 + p4 = 4 * hp"
    and "0 < a" "0 < p"
  shows "region_metrics (synthetic_metro reg y m a p [(a1, p1), (a2, p2), (a3, p3), (a4, p4)]) reg
    = (if a < 30 \<or> p < 30 \<or> ha < 30 \<or> hp < 30 then None
       else Some \<lparr> region = reg, currentActive = round_py a 2, historicalActive = round_py ha 2,
              changePercentage = round_py (((a - ha) / ha) * 100) 2,
              currentPending = round_py p 2, historicalPending = round_py hp 2,
              pendingChange = round_py (((p - hp) / hp) * 100) 2,
              currentRatio = round_py (p / a) 4, historicalRatio = round_py (hp / ha) 4,
              ratioChange = round_py (((p / a - hp / ha) / (hp / ha)) * 100) 2 \<rparr>)"
proof -
  note y = assms(1-3)
  note v = synthetic_valid[OF y assms(4-7) assms(9-12)]
  have ma: "mean [a1, a2, a3, a4] = ha" using assms(8) by (rule mean4)
  have mp: "mean [p1, p2, p3, p4] = hp" using assms(13) by (rule mean4)
  show ?thesis
    unfolding region_metrics_def v ma mp synthetic_current[OF y]
    using assms(14,15)
    by (simp add: mk_row_def Let_def
        del: times_divide_eq_left times_divide_eq_right
          divide_divide_eq_left divide_divide_eq_right)
qed

text \<open>The dataset of the example as the specification gives it, and with every count doubled.\<close>

lemma synthetic_spec_values:
  "calculate_metrics
     (synthetic_metro ''Metro A'' 2024 1 50 40 [(40, 20), (40, 20), (40, 20), (40, 20)]) = []"
  unfolding synthetic_calc[of 2024 1, simplified]
  by (subst synthetic_region[where ha = 40 and hp = 20]) simp_all

lemma synthetic_doubled:
  "calculate_metrics
     (synthetic_metro ''Metro A'' 2024 1 100 80 [(80, 40), (80, 40), (80, 40), (80, 40)]) =
     [\<lparr> region = ''Metro A'', currentActive = 100, historicalActive = 80,
        changePercentage = 25, currentPending = 80, historicalPending = 40,
        pendingChange = 100, currentRatio = 4 / 5, historicalRatio = 1 / 2,
        ratioChange = 60 \<rparr>]"
  unfolding synthetic_calc[of 2024 1, simplified]
  by (subst synthetic_region[where ha = 80 and hp = 40]) (simp_all add: round_py_def Let_def)

subsection \<open>The claims on the Baseline Comparator\<close>

text \<open>
  C2. The comparator emits no Comparison Result for a region whose baseline has fewer than
  three positive points for the active or for the pending count, or whose current active
  or pending count is not positive, or is below 30, or whose baseline mean of the active
  or of the pending count is below 30. The region is left out of the returned list, which
  is the only thing the function returns.
\<close>

theorem no_result_below_thresholds:
  assumes "length (valid_active df reg) < 3 \<or> length (valid_pending df reg) < 3 \<or>
           (\<exists>cur. current_row df reg = Some cur \<and>
                  (active_listing_count cur \<le> 0 \<or> pending_listing_count cur \<le> 0 \<or>
                   active_listing_count cur < 30 \<or> pending_listing_count cur < 30)) \<or>
           mean (valid_active df reg) < 30 \<or> mean (valid_pending df reg) < 30"
  shows "\<forall>res \<in> set (calculate_metrics df). region res \<noteq> reg"
proof
  fix res assume "res \<in> set (calculate_metrics df)"
  then obtain reg' where r: "region_metrics df reg' = Some res"
    by (auto dest: calculate_metrics_mem)
  show "region res \<noteq> reg"
  proof
    assume "region res = reg"
    with region_metrics_SomeD[OF r] have "reg' = reg" by auto
    with region_metrics_SomeD[OF r] assms show False by auto
  qed
qed

theorem no_result_below_thresholds_witness:
  "mean (valid_pending
           (synthetic_metro ''Metro A'' 2024 1 50 40 [(40, 20), (40, 20), (40, 20), (40, 20)])
           ''Metro A'') < 30 \<and>
   \<not> (\<exists>res \<in> set (calculate_metrics
                    (synthetic_metro ''Metro A'' 2024 1 50 40
                       [(40, 20), (40, 20), (40, 20), (40, 20)])).
        region res = ''Metro A'')"
proof -
  let ?df = "synthetic_metro ''Metro A'' 2024 1 50 40 [(40, 20), (40, 20), (40, 20), (40, 20)]"
  have h: "mean (valid_pending ?df ''Metro A'') < 30"
    by (simp add: synthetic_valid mean_def)
  with no_result_below_thresholds[of ?df "''Metro A''"] show ?thesis
    by blast
qed

text \<open>
  C3, as stated, fails: on the dataset with one region whose row of the latest month has
  active 50 and pending 40 and whose four baseline rows have active 40 and pending 20, the
  comparator emits no result for the region, the baseline mean of the pending count, 20,
  being below the floor of 30.
\<close>

theorem synthetic_metro_counterexample:
  "\<not> (\<exists>res \<in> set (calculate_metrics
                   (synthetic_metro ''Metro A'' 2024 1 50 40
                      [(40, 20), (40, 20), (40, 20), (40, 20)])).
        region res = ''Metro A'' \<and> changePercentage res = 25 \<and> pendingChange res = 100 \<and>
        currentRatio res = 4 / 5 \<and> historicalRatio res = 1 / 2 \<and> ratioChange res = 60)"
  by (simp add: synthetic_spec_values)

text \<open>
  C3, amended. On a dataset with one region whose row of the latest month (of a year from
  2020 on) has active 50 and pending 40, and whose baseline rows (same calendar month,
  2016 to 2019, positive counts) average active 40 and pending 20, the comparator emits
  nothing. On the same dataset with every count doubled (current active 100 and pending 80,
  baseline averaging 80 and 40) it emits exactly one result, with \<open>changePercentage = 25\<close>,
  \<open>pendingChange = 100\<close>, \<open>currentRatio = 0.8\<close>, \<open>historicalRatio = 0.5\<close> and
  \<open>ratioChange = 60\<close>.
\<close>

theorem synthetic_metro_amended:
  fixes reg :: 'r and y m :: int
  assumes "2020 \<le> y" "1 \<le> m" "m \<le> 12"
    and "0 < a1" "0 < a2" "0 < a3" "0 < a4" "a1 + a2 + a3 + a4 = 4 * 40"
    and "0 < p1" "0 < p2" "0 < p3" "0 < p4" "p1 + p2 + p3 + p4 = 4 * 20"
  shows "calculate_metrics
           (synthetic_metro reg y m 50 40 [(a1, p1), (a2, p2), (a3, p3), (a4, p4)]) = [] \<and>
         calculate_metrics
           (synthetic_metro reg y m 100 80
              [(2 * a1, 2 * p1), (2 * a2, 2 * p2), (2 * a3, 2 * p3), (2 * a4, 2 * p4)]) =
           [\<lparr> region = reg, currentActive = 100, historicalActive = 80, changePercentage = 25,
              currentPending = 80, historicalPending = 40, pendingChange = 100,
              currentRatio = 4 / 5, historicalRatio = 1 / 2, ratioChange = 60 \<rparr>]"
proof -
  note y = assms(1-3)
  have sa: "2 * a1 + 2 * a2 + 2 * a3 + 2 * a4 = 4 * 80" using assms(8) by simp
  have sp: "2 * p1 + 2 * p2 + 2 * p3 + 2 * p4 = 4 * 40" using assms(13) by simp
  have pa: "0 < 2 * a1" "0 < 2 * a2" "0 < 2 * a3" "0 < 2 * a4" using assms(4-7) by simp_all
  have pp: "0 < 2 * p1" "0 < 2 * p2" "0 < 2 * p3" "0 < 2 * p4" using assms(9-12) by simp_all
  have A: "calculate_metrics
           (synthetic_metro reg y m 50 40 [(a1, p1), (a2, p2), (a3, p3), (a4, p4)]) = []"
    unfolding synthetic_calc[OF y]
    by (subst synthetic_region[OF y assms(4-8) assms(9-13)]) simp_all
  have B: "calculate_metrics
           (synthetic_metro reg y m 100 80
              [(2 * a1, 2 * p1), (2 * a2, 2 * p2), (2 * a3, 2 * p3), (2 * a4, 2 * p4)]) =
           [\<lparr> region = reg, currentActive = 100, historicalActive = 80, changePercentage = 25,
              currentPending = 80, historicalPending = 40, pendingChange = 100,
              currentRatio = 4 / 5, historicalRatio = 1 / 2, ratioChange = 60 \<rparr>]"
    unfolding synthetic_calc[OF y]
    by (subst synthetic_region[OF y pa sa pp sp]) (simp_all add: round_py_def Let_def)
  from A B show ?thesis by simp
qed

theorem synthetic_metro_amended_witness:
  "calculate_metrics
     (synthetic_metro ''Metro B'' 2023 6 50 40 [(30, 10), (40, 20), (40, 20), (50, 30)]) = [] \<and>
   calculate_metrics
     (synthetic_metro ''Metro B'' 2023 6 100 80 [(60, 20), (80, 40), (80, 40), (100, 60)]) =
     [\<lparr> region = ''Metro B'', currentActive = 100, historicalActive = 80,
        changePercentage = 25, currentPending = 80, historicalPending = 40,
        pendingChange = 100, currentRatio = 4 / 5, historicalRatio = 1 / 2,
        ratioChange = 60 \<rparr>]"
  using synthetic_metro_amended[of 2023 6 30 40 40 50 10 20 20 30 "''Metro B''"]
  by simp

section \<open>Properties of the Baseline Comparator on floating-point numbers\<close>

lemma two_metros_latest: "latest_month_fl two_metros = 202403"
  by (simp add: latest_month_fl_def two_metros_def mk_frow_def)

lemma two_metros_current:
  "current_data_fl two_metros =
     [mk_frow ''Metro B'' 202403 100 100, mk_frow ''Metro A'' 202403 200 120]"
  unfolding current_data_fl_def two_metros_latest
  by (simp add: two_metros_def mk_frow_def)

lemma two_metros_pre:
  "pre_pandemic_fl two_metros =
     [mk_frow ''Metro A'' 201603 160 80, mk_frow ''Metro A'' 201703 0 80,
      mk_frow ''Metro A'' 201803 160 80, mk_frow ''Metro A'' 201903 160 80,
      mk_frow ''Metro B'' 201803 100 100]"
  unfolding pre_pandemic_fl_def two_metros_latest
  by (simp add: two_metros_def mk_frow_def)

lemma two_metros_region_A:
  "region_metrics_fl exact_ops two_metros (Some ''Metro A'') =
     Some \<lparr> fl_region = Some ''Metro A'', fl_currentActive = 200, fl_historicalActive = 160,
        fl_changePercentage = 25, fl_currentPending = 120, fl_historicalPending = 80,
        fl_pendingChange = 50, fl_currentRatio = 3 / 5, fl_historicalRatio = 1 / 2,
        fl_ratioChange = 20 \<rparr>"
  unfolding region_metrics_fl_def two_metros_current two_metros_pre
  by (simp add: mk_frow_def eq_cell_def exact_ops_def mean_def Let_def round_py_def)

lemma two_metros_region_B:
  "region_metrics_fl exact_ops two_metros (Some ''Metro B'') = None"
  unfolding region_metrics_fl_def two_metros_current two_metros_pre
  by (simp add: mk_frow_def eq_cell_def exact_ops_def Let_def)

lemma two_metros_result:
  "calculate_metrics_fl exact_ops two_metros =
     [\<lparr> fl_region = Some ''Metro A'', fl_currentActive = 200, fl_historicalActive = 160,
        fl_changePercentage = 25, fl_currentPending = 120, fl_historicalPending = 80,
        fl_pendingChange = 50, fl_currentRatio = 3 / 5, fl_historicalRatio = 1 / 2,
        fl_ratioChange = 20 \<rparr>]"
proof -
  have ne: "two_metros \<noteq> []" by (simp add: two_metros_def)
  have u: "unique (map f_region (current_data_fl two_metros)) =
      [Some ''Metro B'', Some ''Metro A'']"
    unfolding two_metros_current by (simp add: mk_frow_def)
  show ?thesis
    unfolding calculate_metrics_fl_def u
    by (simp add: ne List.map_filter_def two_metros_region_A two_metros_region_B)
qed

lemma latest_month_fl_Max: "latest_month_fl df = Max (f_month ` set df)"
  by (simp add: latest_month_fl_def)

lemma eq_cell_Some [simp]: "eq_cell c (Some r) \<longleftrightarrow> c = Some r"
  by (simp add: eq_cell_def)

lemma eq_cell_None [simp]: "\<not> eq_cell c None"
  by (simp add: eq_cell_def)

lemma current_row_fl:
  assumes "filter (\<lambda>r. eq_cell (f_region r) (Some reg)) (current_data_fl df) = cur # rest"
  shows "spec_current_row df reg = Some cur"
proof -
  have "filter (\<lambda>r. f_month r = Max (f_month ` set df) \<and> f_region r = Some reg) df =
        filter (\<lambda>r. eq_cell (f_region r) (Some reg)) (current_data_fl df)"
    by (simp add: current_data_fl_def latest_month_fl_Max conj_commute)
  with assms show ?thesis
    by (simp add: spec_current_row_def find_filter_hd)
qed

lemma baseline_values_fl:
  "filter (\<lambda>v. fl_less ops (fl_of_int ops 0) v)
     (map col (filter (\<lambda>r. eq_cell (f_region r) (Some reg)) (pre_pandemic_fl df))) =
   spec_baseline_values ops col df reg"
proof -
  have "filter (\<lambda>v. fl_less ops (fl_of_int ops 0) v)
     (map col (filter (\<lambda>r. eq_cell (f_region r) (Some reg)) (pre_pandemic_fl df))) =
     map col (filter (\<lambda>r. fl_less ops (fl_of_int ops 0) (col r))
       (filter (\<lambda>r. f_region r = Some reg)
         (filter (\<lambda>r. 201601 \<le> f_month r \<and> f_month r \<le> 201912 \<and>
                 f_month r mod 100 = spec_reference_month df) df)))"
    by (simp add: filter_map comp_def pre_pandemic_fl_def latest_month_fl_Max
        spec_reference_month_def)
  also have "\<dots> = spec_baseline_values ops col df reg"
    unfolding spec_baseline_values_def filter_filter
    by (rule arg_cong[where f = "map col"], rule filter_cong) auto
  finally show ?thesis .
qed

lemma region_metrics_fl_SomeD:
  assumes "region_metrics_fl ops df reg = Some res"
  shows "\<exists>r cur. reg = Some r \<and> fl_region res = Some r \<and> spec_current_row df r = Some cur \<and>
           fl_changePercentage res =
             spec_percent_change ops (f_active cur)
               (fl_mean ops (spec_baseline_values ops f_active df r)) \<and>
           fl_pendingChange res =
             spec_percent_change ops (f_pending cur)
               (fl_mean ops (spec_baseline_values ops f_pending df r)) \<and>
           fl_ratioChange res =
             spec_percent_change ops (fl_div ops (f_pending cur) (f_active cur))
               (fl_div ops (fl_mean ops (spec_baseline_values ops f_pending df r))
                  (fl_mean ops (spec_baseline_values ops f_active df r)))"
proof (cases reg)
  case None
  with assms show ?thesis by (simp add: region_metrics_fl_def)
next
  case (Some r)
  from assms Some obtain cur rest where
    f: "filter (\<lambda>x. eq_cell (f_region x) (Some r)) (current_data_fl df) = cur # rest"
    by (cases "filter (\<lambda>x. eq_cell (f_region x) (Some r)) (current_data_fl df)")
       (simp_all add: region_metrics_fl_def)
  note c = current_row_fl[OF f]
  from assms have "res = \<lparr> fl_region = Some r,
      fl_currentActive = fl_round_py ops (f_active cur) 2,
      fl_historicalActive = fl_round ops (fl_mean ops (spec_baseline_values ops f_active df r)) 2,
      fl_changePercentage =
        spec_percent_change ops (f_active cur)
          (fl_mean ops (spec_baseline_values ops f_active df r)),
      fl_currentPending = fl_round_py ops (f_pending cur) 2,
      fl_historicalPending =
        fl_round ops (fl_mean ops (spec_baseline_values ops f_pending df r)) 2,
      fl_pendingChange =
        spec_percent_change ops (f_pending cur)
          (fl_mean ops (spec_baseline_values ops f_pending df r)),
      fl_currentRatio = fl_round_py ops (fl_div ops (f_pending cur) (f_active cur)) 4,
      fl_historicalRatio =
        fl_round ops
          (fl_div ops (fl_mean ops (spec_baseline_values ops f_pending df r))
             (fl_mean ops (spec_baseline_values ops f_active df r))) 4,
      fl_ratioChange =
        spec_percent_change ops (fl_div ops (f_pending cur) (f_active cur))
          (fl_div ops (fl_mean ops (spec_baseline_values ops f_pending df r))
             (fl_mean ops (spec_baseline_values ops f_active df r))) \<rparr>"
    unfolding region_metrics_fl_def Some f list.case Let_def baseline_values_fl
      spec_percent_change_def
    by (simp split: if_splits)
  with Some c show ?thesis by simp
qed

lemma two_metros_baseline:
  "spec_baseline_values exact_ops f_active two_metros ''Metro A'' = [160, 160, 160]"
  "spec_baseline_values exact_ops f_pending two_metros ''Metro A'' = [80, 80, 80, 80]"
  unfolding spec_baseline_values_def spec_reference_month_def
    latest_month_fl_Max[symmetric] two_metros_latest
  by (simp_all add: two_metros_def mk_frow_def exact_ops_def)

text \<open>
  C1. In every Comparison Result the comparator emits, each of the three percent-change
  fields is \<open>round((current - historical) / historical * 100, 2)\<close>, computed in the
  floating-point operations of the program, whatever they are. For the active and the
  pending counts, \<open>current\<close> is the value of the region's row of the latest month and
  \<open>historical\<close> is the mean of the region's positive values in the baseline window; for
  the ratio, \<open>current\<close> is pending over active of that row and \<open>historical\<close> is the ratio of
  the two baseline means.
\<close>

theorem percent_change_formula:
  assumes "res \<in> set (calculate_metrics_fl ops df)"
  shows "\<exists>reg cur. fl_region res = Some reg \<and> spec_current_row df reg = Some cur \<and>
           fl_changePercentage res =
             spec_percent_change ops (f_active cur)
               (fl_mean ops (spec_baseline_values ops f_active df reg)) \<and>
           fl_pendingChange res =
             spec_percent_change ops (f_pending cur)
               (fl_mean ops (spec_baseline_values ops f_pending df reg)) \<and>
           fl_ratioChange res =
             spec_percent_change ops (fl_div ops (f_pending cur) (f_active cur))
               (fl_div ops (fl_mean ops (spec_baseline_values ops f_pending df reg))
                  (fl_mean ops (spec_baseline_values ops f_active df reg)))"
proof -
  from assms obtain reg where "region_metrics_fl ops df reg = Some res"
    by (auto simp: calculate_metrics_fl_def set_map_filter_eq split: if_splits)
  from region_metrics_fl_SomeD[OF this] show ?thesis by blast
qed

theorem percent_change_formula_witness:
  "\<exists>cur. spec_current_row two_metros ''Metro A'' = Some cur \<and>
     (25 :: rat) =
       spec_percent_change exact_ops (f_active cur)
         (fl_mean exact_ops (spec_baseline_values exact_ops f_active two_metros ''Metro A'')) \<and>
     (50 :: rat) =
       spec_percent_change exact_ops (f_pending cur)
         (fl_mean exact_ops (spec_baseline_values exact_ops f_pending two_metros ''Metro A'')) \<and>
     (20 :: rat) =
       spec_percent_change exact_ops (fl_div exact_ops (f_pending cur) (f_active cur))
         (fl_div exact_ops
            (fl_mean exact_ops (spec_baseline_values exact_ops f_pending two_metros ''Metro A''))
            (fl_mean exact_ops (spec_baseline_values exact_ops f_active two_metros ''Metro A'')))"
proof -
  let ?res = "\<lparr> fl_region = Some ''Metro A'', fl_currentActive = 200 :: rat,
        fl_historicalActive = 160, fl_changePercentage = 25, fl_currentPending = 120,
        fl_historicalPending = 80, fl_pendingChange = 50, fl_currentRatio = 3 / 5,
        fl_historicalRatio = 1 / 2, fl_ratioChange = 20 \<rparr>"
  have "?res \<in> set (calculate_metrics_fl exact_ops two_metros)"
    by (simp add: two_metros_result)
  from percent_change_formula[OF this] show ?thesis
    by simp
qed

subsection \<open>The exact model as an instance\<close>

text \<open>
  With the exact operations, on a table whose region names are all present, the
  comparator on floating-point numbers is the comparator of the exact model: there the
  test \<open>np.isfinite\<close> always holds.
\<close>

lemma lift_latest: "latest_month_fl (map lift_row df) = latest_month df"
  by (simp add: latest_month_fl_def latest_month_def lift_row_def comp_def)

lemma lift_current: "current_data_fl (map lift_row df) = map lift_row (current_data df)"
  by (simp add: current_data_fl_def current_data_def lift_latest filter_map comp_def lift_row_def)

lemma lift_pre: "pre_pandemic_fl (map lift_row df) = map lift_row (pre_pandemic df)"
  by (simp add: pre_pandemic_fl_def pre_pandemic_def lift_latest filter_map comp_def lift_row_def)

lemma lift_region_filter:
  "filter (\<lambda>r. eq_cell (f_region r) (Some reg)) (map lift_row xs) =
     map lift_row (filter (\<lambda>r. region_col r = reg) xs)"
  by (simp add: filter_map comp_def lift_row_def)

lemma lift_region_metrics:
  "region_metrics_fl exact_ops (map lift_row df) (Some reg) =
     map_option lift_result (region_metrics df reg)"
proof (cases "filter (\<lambda>r. region_col r = reg) (current_data df)")
  case Nil
  show ?thesis
    unfolding region_metrics_fl_def region_metrics_def lift_current lift_region_filter Nil
    by simp
next
  case (Cons cur rest)
  have va: "filter (\<lambda>v. 0 < v)
      (map f_active (map lift_row (filter (\<lambda>r. region_col r = reg) (pre_pandemic df)))) =
      valid_active df reg"
    by (simp add: valid_active_def comp_def lift_row_def)
  have vp: "filter (\<lambda>v. 0 < v)
      (map f_pending (map lift_row (filter (\<lambda>r. region_col r = reg) (pre_pandemic df)))) =
      valid_pending df reg"
    by (simp add: valid_pending_def comp_def lift_row_def)
  have ops: "fl_of_int exact_ops = of_int" "fl_sub exact_ops = (-)" "fl_div exact_ops = (/)"
    "fl_mul exact_ops = (*)" "fl_less exact_ops = (<)" "fl_round exact_ops = round_py"
    "fl_round_py exact_ops = round_py"
    "fl_mean exact_ops = mean" "fl_isfinite exact_ops = (\<lambda>x. True)"
    by (simp_all add: exact_ops_def)
  show ?thesis
    unfolding region_metrics_fl_def region_metrics_def lift_current lift_pre lift_region_filter
      Cons list.map list.case Let_def ops of_int_0 of_int_numeral va vp
    by (simp add: lift_result_def lift_row_def
        del: times_divide_eq_left times_divide_eq_right
          divide_divide_eq_left divide_divide_eq_right)
qed

lemma unique_map_inj: "inj f \<Longrightarrow> unique (map f xs) = map f (unique xs)"
proof (induction xs rule: unique.induct)
  case 1
  show ?case by simp
next
  case (2 x xs)
  from 2(2) have "removeAll (f x) (map f xs) = map f (removeAll x xs)"
    by (induction xs) (auto dest: injD)
  with 2 show ?case by simp
qed

lemma map_filter_map_Some:
  assumes "\<And>y. g (Some y) = map_option h (k y)"
  shows "List.map_filter g (map Some ys) = map h (List.map_filter k ys)"
  using assms by (induction ys) (auto simp: List.map_filter_def)

lemma calculate_metrics_exact:
  "calculate_metrics_fl exact_ops (map lift_row df) = map lift_result (calculate_metrics df)"
proof (cases "df = []")
  case True
  then show ?thesis by (simp add: calculate_metrics_fl_def calculate_metrics_def)
next
  case False
  have m: "map f_region (map lift_row xs) = map Some (map region_col xs)" for xs :: "'a row list"
    by (induction xs) (simp_all add: lift_row_def)
  have u: "unique (map f_region (current_data_fl (map lift_row df))) =
      map Some (unique (map region_col (current_data df)))"
    unfolding lift_current m by (rule unique_map_inj) simp
  from False show ?thesis
    unfolding calculate_metrics_fl_def calculate_metrics_def u
    by (simp add: map_filter_map_Some[where g = "region_metrics_fl exact_ops (map lift_row df)"
          and h = lift_result and k = "region_metrics df", OF lift_region_metrics])
qed

section \<open>Properties of the Ranker\<close>

lemma get_top_bottom_eq:
  "get_top_bottom data metric n =
     (map (metric_entry metric) (slice_to (sorted_desc (metric_key metric) data) n),
      map (metric_entry metric) (slice_from (sorted_desc (metric_key metric) data) (- n)))"
  by (simp add: get_top_bottom_def metric_entry_def metric_key_def Let_def)

lemma entry_key [simp]: "rk_changePercentage (metric_entry metric x) = metric_key metric x"
  by (simp add: metric_entry_def metric_key_def active_entry_def pending_entry_def ratio_entry_def)

lemma entry_region [simp]: "rk_region (metric_entry metric x) = region x"
  by (simp add: metric_entry_def active_entry_def pending_entry_def ratio_entry_def)

lemma mset_sorted_desc [simp]: "mset (sorted_desc k xs) = mset xs"
  by (simp add: sorted_desc_def)

lemma set_sorted_desc [simp]: "set (sorted_desc k xs) = set xs"
  by (simp add: sorted_desc_def)

lemma length_sorted_desc [simp]: "length (sorted_desc k xs) = length xs"
  by (simp add: sorted_desc_def)

lemma sorted_desc_sorted: "sorted_wrt (\<lambda>a b. k b \<le> k a) (sorted_desc k xs)"
proof -
  have "sorted (map (\<lambda>x. - k x) (sorted_desc k xs))"
    unfolding sorted_desc_def by (rule sorted_sort_key)
  then show ?thesis by (simp add: sorted_map)
qed

lemma sorted_desc_stable:
  "filter (\<lambda>x. k x = c) (sorted_desc k xs) = filter (\<lambda>x. k x = c) xs"
  using sort_key_stable[of "\<lambda>x. - k x" "- c" xs] by (simp add: sorted_desc_def)

lemma sorted_desc_hd_max:
  assumes "xs \<noteq> []" "x \<in> set xs"
  shows "k x \<le> k (hd (sorted_desc k xs))"
proof -
  let ?S = "sorted_desc k xs"
  from assms have ne: "?S \<noteq> []" by (metis length_sorted_desc length_0_conv)
  then obtain y ys where S: "?S = y # ys" by (cases ?S) auto
  from assms(2) have "x \<in> set ?S" by simp
  with sorted_desc_sorted[of k xs] S show ?thesis by auto
qed

lemma slice_to_pos: "0 < n \<Longrightarrow> slice_to xs n = take (nat n) xs"
  by (simp add: slice_to_def)

lemma slice_from_neg: "0 < n \<Longrightarrow> slice_from xs (- n) = drop (length xs - nat n) xs"
  by (simp add: slice_from_def)

subsection \<open>The claims on the Ranker\<close>

text \<open>
  C6. For every list of Comparison Results and every metric selector (a selector other
  than \<open>active\<close> and \<open>pending\<close> is read as \<open>ratio\<close>), the Ranker sorts the list descending
  by the percent-change field of the selector and returns the first \<open>N\<close> entries as top
  and the last \<open>N\<close> entries, in the same descending order, as bottom, for the number
  \<open>N \<ge> 1\<close> of entries asked for, 10 by default. Each has \<open>min N (length data)\<close> entries,
  the keys are non-increasing within each, and the first entry of top has the maximum
  percent change. On a list of 25 results with the default \<open>N\<close>, top and bottom have 10
  entries each.
\<close>

theorem ranker_top_bottom:
  assumes "0 < n"
  shows "get_top_bottom data metric n =
           (map (metric_entry metric) (take (nat n) (sorted_desc (metric_key metric) data)),
            map (metric_entry metric)
              (drop (length data - nat n) (sorted_desc (metric_key metric) data))) \<and>
         mset (sorted_desc (metric_key metric) data) = mset data \<and>
         sorted_wrt (\<lambda>a b. metric_key metric b \<le> metric_key metric a)
           (sorted_desc (metric_key metric) data) \<and>
         length (fst (get_top_bottom data metric n)) = min (nat n) (length data) \<and>
         length (snd (get_top_bottom data metric n)) = min (nat n) (length data) \<and>
         sorted_wrt (\<lambda>a b. rk_changePercentage b \<le> rk_changePercentage a)
           (fst (get_top_bottom data metric n)) \<and>
         sorted_wrt (\<lambda>a b. rk_changePercentage b \<le> rk_changePercentage a)
           (snd (get_top_bottom data metric n)) \<and>
         (\<forall>x \<in> set data.
            metric_key metric x \<le>
              rk_changePercentage (hd (fst (get_top_bottom data metric n)))) \<and>
         (length data = 25 \<and> n = default_n \<longrightarrow>
            length (fst (get_top_bottom data metric n)) = 10 \<and>
            length (snd (get_top_bottom data metric n)) = 10)"
proof -
  let ?S = "sorted_desc (metric_key metric) data"
  let ?E = "metric_entry metric"
  have eq: "get_top_bottom data metric n =
      (map ?E (take (nat n) ?S), map ?E (drop (length data - nat n) ?S))"
    using assms by (simp add: get_top_bottom_eq slice_to_pos slice_from_neg)
  have srt: "sorted_wrt (\<lambda>a b. metric_key metric b \<le> metric_key metric a) ?S"
    by (rule sorted_desc_sorted)
  have top: "sorted_wrt (\<lambda>a b. rk_changePercentage b \<le> rk_changePercentage a)
      (map ?E (take (nat n) ?S))"
    using sorted_wrt_take[OF srt, of "nat n"] by (simp add: sorted_wrt_map)
  have bot: "sorted_wrt (\<lambda>a b. rk_changePercentage b \<le> rk_changePercentage a)
      (map ?E (drop (length data - nat n) ?S))"
    using sorted_wrt_drop[OF srt, of "length data - nat n"] by (simp add: sorted_wrt_map)
  have mx: "\<forall>x \<in> set data.
      metric_key metric x \<le> rk_changePercentage (hd (map ?E (take (nat n) ?S)))"
  proof
    fix x assume x: "x \<in> set data"
    then have ne: "data \<noteq> []" by auto
    then have "?S \<noteq> []" by (metis length_sorted_desc length_0_conv)
    moreover from assms have "0 < nat n" by simp
    ultimately have "hd (map ?E (take (nat n) ?S)) = ?E (hd ?S)"
      by (cases ?S; cases "nat n") simp_all
    with sorted_desc_hd_max[OF ne x, of "metric_key metric"] show
      "metric_key metric x \<le> rk_changePercentage (hd (map ?E (take (nat n) ?S)))"
      by simp
  qed
  have len: "length (map ?E (drop (length data - nat n) ?S)) = min (nat n) (length data)"
    by simp
  show ?thesis
    unfolding eq fst_conv snd_conv
    using srt top bot mx len by (simp add: default_n_def)
qed

theorem ranker_top_bottom_witness:
  "(0 :: int) < 10 \<and>
   length (fst (get_top_bottom
     (map (\<lambda>i. sample_result i (of_nat i)) [0 ..< 25]) ''active'' 10)) = 10 \<and>
   length (snd (get_top_bottom
     (map (\<lambda>i. sample_result i (of_nat i)) [0 ..< 25]) ''active'' 10)) = 10 \<and>
   sorted_wrt (\<lambda>a b. rk_changePercentage b \<le> rk_changePercentage a)
     (fst (get_top_bottom (map (\<lambda>i. sample_result i (of_nat i)) [0 ..< 25]) ''active'' 10))"
proof -
  let ?D = "map (\<lambda>i. sample_result i (of_nat i)) [0 ..< 25] :: nat comparison list"
  have h: "(0 :: int) < 10" by simp
  have l: "length ?D = 25 \<and> (10 :: int) = default_n" by (simp add: default_n_def)
  note T = ranker_top_bottom[OF h, of ?D "''active''"]
  note srt = T[THEN conjunct2, THEN conjunct2, THEN conjunct2, THEN conjunct2,
      THEN conjunct2, THEN conjunct1]
  note len = T[THEN conjunct2, THEN conjunct2, THEN conjunct2, THEN conjunct2,
      THEN conjunct2, THEN conjunct2, THEN conjunct2, THEN conjunct2, THEN mp, OF l]
  from h len srt show ?thesis
    by blast
qed

text \<open>
  C10. For a list of Comparison Results with length \<open>L \<le> N\<close>, top and bottom are both the
  whole descending-sorted list: the entries of all \<open>L\<close> results, each as often as it is in
  the input, with non-increasing percent changes. So every result appears in both, and
  the two lists are not disjoint unless the input is empty.
\<close>

theorem ranker_short_input:
  assumes "int (length data) \<le> n"
  shows "fst (get_top_bottom data metric n) =
           map (metric_entry metric) (sorted_desc (metric_key metric) data) \<and>
         snd (get_top_bottom data metric n) =
           map (metric_entry metric) (sorted_desc (metric_key metric) data) \<and>
         mset (sorted_desc (metric_key metric) data) = mset data \<and>
         sorted_wrt (\<lambda>a b. metric_key metric b \<le> metric_key metric a)
           (sorted_desc (metric_key metric) data) \<and>
         mset (fst (get_top_bottom data metric n)) =
           image_mset (metric_entry metric) (mset data) \<and>
         mset (snd (get_top_bottom data metric n)) =
           image_mset (metric_entry metric) (mset data) \<and>
         length (fst (get_top_bottom data metric n)) = length data \<and>
         length (snd (get_top_bottom data metric n)) = length data \<and>
         sorted_wrt (\<lambda>a b. rk_changePercentage b \<le> rk_changePercentage a)
           (fst (get_top_bottom data metric n)) \<and>
         sorted_wrt (\<lambda>a b. rk_changePercentage b \<le> rk_changePercentage a)
           (snd (get_top_bottom data metric n)) \<and>
         (\<forall>x \<in> set data.
            metric_entry metric x \<in> set (fst (get_top_bottom data metric n)) \<and>
            metric_entry metric x \<in> set (snd (get_top_bottom data metric n))) \<and>
         (data \<noteq> [] \<longrightarrow>
            set (fst (get_top_bottom data metric n)) \<inter>
            set (snd (get_top_bottom data metric n)) \<noteq> {})"
proof -
  let ?S = "sorted_desc (metric_key metric) data"
  let ?E = "metric_entry metric"
  from assms have n: "0 \<le> n" "length ?S \<le> nat n" by simp_all
  have t: "slice_to ?S n = ?S" using n by (simp add: slice_to_def)
  have b: "slice_from ?S (- n) = ?S"
  proof (cases "n = 0")
    case True
    with assms show ?thesis by (simp add: slice_from_def)
  next
    case False
    with n have "0 < n" by simp
    with n show ?thesis by (simp add: slice_from_neg)
  qed
  have srt: "sorted_wrt (\<lambda>a b. metric_key metric b \<le> metric_key metric a) ?S"
    by (rule sorted_desc_sorted)
  then have srtE: "sorted_wrt (\<lambda>a b. rk_changePercentage b \<le> rk_changePercentage a)
      (map ?E ?S)"
    by (simp add: sorted_wrt_map)
  have ms: "mset (map ?E ?S) = image_mset ?E (mset data)"
    by simp
  have ne: "data \<noteq> [] \<Longrightarrow> set (map ?E ?S) \<noteq> {}"
    by simp
  show ?thesis
    unfolding get_top_bottom_eq t b fst_conv snd_conv
    using srt srtE ms ne by auto
qed

theorem ranker_short_input_witness:
  "int (length [sample_result ''A'' 5, sample_result ''B'' 7]) \<le> 10 \<and>
   fst (get_top_bottom [sample_result ''A'' 5, sample_result ''B'' 7] ''active'' 10) =
   snd (get_top_bottom [sample_result ''A'' 5, sample_result ''B'' 7] ''active'' 10) \<and>
   set (fst (get_top_bottom [sample_result ''A'' 5, sample_result ''B'' 7] ''active'' 10)) \<inter>
   set (snd (get_top_bottom [sample_result ''A'' 5, sample_result ''B'' 7] ''active'' 10)) \<noteq> {}"
proof -
  have h: "int (length [sample_result ''A'' 5, sample_result ''B'' 7]) \<le> 10" by simp
  from ranker_short_input[OF h, of "''active''"] h show ?thesis
    by simp
qed

section \<open>Properties of the Affordability Merger\<close>

lemma date_match_sample: "date_match ''2024-01-31''"
  by (simp add: digit_def)

lemma sample_columns [simp]: "columns (sample_frame rs) = [''RegionName'', ''2024-01-31'']"
  by (simp add: sample_frame_def)

lemma sample_rows [simp]:
  "rows (sample_frame rs) = map (\<lambda>(name, v). \<lparr> RegionName = name, cell = (\<lambda>c. v) \<rparr>) rs"
  by (simp add: sample_frame_def)

lemma sample_latest: "latest_column (sample_frame rs) = ''2024-01-31''"
  by (simp add: latest_column_def date_columns_def sample_frame_def digit_def)

lemma sample_dates: "date_columns (sample_frame rs) = [''2024-01-31'']"
  by (simp add: date_columns_def sample_frame_def digit_def)

lemma sample_empty: "empty (sample_frame rs) \<longleftrightarrow> rs = []"
  by (simp add: empty_def sample_frame_def)

lemma sample_no_renter_metrics: "calculate_affordability_metrics
         (sample_frame [(''A'', Some 5), (''B'', Some 4)]) (sample_frame [(''B'', Some 3)]) =
       [\<lparr> af_region = ''B'', homeownerAffordability = Some 4, renterAffordability = 3,
          affordabilityGap = Some 1 \<rparr>]"
  by (simp add: calculate_affordability_metrics_def sample_empty sample_dates sample_latest
      List.map_filter_def affordability_row_def sorted_valid_results_def invalid_results_def
      sorted_desc_def Let_def)

lemma affordability_row_region:
  assumes "affordability_row renter_df latest row = Some res"
  shows "af_region res = RegionName row \<and> RegionName row \<in> RegionName ` set (rows renter_df)"
proof -
  from assms obtain rr rest where
    f: "filter (\<lambda>r. RegionName r = RegionName row) (rows renter_df) = rr # rest"
    by (cases "filter (\<lambda>r. RegionName r = RegionName row) (rows renter_df)")
       (simp_all add: affordability_row_def)
  then have "rr \<in> set (filter (\<lambda>r. RegionName r = RegionName row) (rows renter_df))" by simp
  then have m: "RegionName row \<in> RegionName ` set (rows renter_df)"
    by (auto intro!: image_eqI[where x = rr])
  from assms f have "af_region res = RegionName row"
    by (auto simp: affordability_row_def Let_def split: if_splits option.splits)
  with m show ?thesis by simp
qed

lemma set_sorted_valid_results [simp]:
  "set (sorted_valid_results rs) = {r \<in> set rs. affordabilityGap r \<noteq> None}"
  by (auto simp: sorted_valid_results_def sorted_desc_def)

lemma set_invalid_results [simp]:
  "set (invalid_results rs) = {r \<in> set rs. affordabilityGap r = None}"
  by (auto simp: invalid_results_def)

lemma calculate_affordability_metrics_mem:
  assumes "res \<in> set (calculate_affordability_metrics homeowner_df renter_df)"
  shows "\<exists>row \<in> set (rows homeowner_df).
           affordability_row renter_df (latest_column homeowner_df) row = Some res"
  using assms
  by (auto simp: calculate_affordability_metrics_def Let_def set_map_filter_eq
      split: if_splits)

lemma calculate_affordability_metrics_split:
  "\<exists>rs. calculate_affordability_metrics homeowner_df renter_df =
         sorted_valid_results rs @ invalid_results rs"
proof (cases "empty homeowner_df \<or> empty renter_df \<or> date_columns homeowner_df = []")
  case True
  then have "calculate_affordability_metrics homeowner_df renter_df =
      sorted_valid_results [] @ invalid_results []"
    by (auto simp: calculate_affordability_metrics_def sorted_valid_results_def
        invalid_results_def sorted_desc_def)
  then show ?thesis by blast
next
  case False
  then show ?thesis
    by (auto simp: calculate_affordability_metrics_def Let_def)
qed

lemma gapless_after_valid:
  assumes "i < j" "j < length (sorted_valid_results rs @ invalid_results rs)"
    and "affordabilityGap ((sorted_valid_results rs @ invalid_results rs) ! i) = None"
  shows "affordabilityGap ((sorted_valid_results rs @ invalid_results rs) ! j) = None"
proof -
  let ?V = "sorted_valid_results rs" and ?I = "invalid_results rs"
  have V: "\<forall>x \<in> set ?V. affordabilityGap x \<noteq> None"
    by simp
  have I: "\<forall>x \<in> set ?I. affordabilityGap x = None"
    by simp
  have nv: "\<not> i < length ?V"
  proof
    assume lt: "i < length ?V"
    then have "?V ! i \<in> set ?V" by (rule nth_mem)
    with V have "affordabilityGap (?V ! i) \<noteq> None" by blast
    with lt assms(3) show False by (simp add: nth_append)
  qed
  with assms(1) have nj: "\<not> j < length ?V" by simp
  with assms(2) have "j - length ?V < length ?I" by simp
  then have "?I ! (j - length ?V) \<in> set ?I" by (rule nth_mem)
  with I have "affordabilityGap (?I ! (j - length ?V)) = None" by blast
  with nj show ?thesis by (simp add: nth_append)
qed

lemma affordability_row_gapless:
  assumes "find (\<lambda>r. RegionName r = RegionName row) (rows renter_df) = Some renter_row"
    and "latest \<in> set (columns renter_df)"
    and "cell renter_row latest = Some v" "v \<noteq> 0"
    and "cell row latest = None \<or> cell row latest = Some 0"
  shows "affordability_row renter_df latest row =
           Some \<lparr> af_region = RegionName row, homeownerAffordability = None,
                  renterAffordability = v, affordabilityGap = None \<rparr>"
proof -
  from assms(1) obtain rest where
    "filter (\<lambda>r. RegionName r = RegionName row) (rows renter_df) = renter_row # rest"
    by (auto simp: find_filter_hd split: list.splits)
  with assms(2-5) show ?thesis
    by (auto simp: affordability_row_def Let_def)
qed

lemma set_slice_from: "set (slice_from xs k) \<subseteq> set xs"
  by (auto simp: slice_from_def dest: in_set_dropD)

lemma most_affordable_eq:
  "mostAffordable (get_affordability_summary homeowner_df renter_df) =
     (if empty homeowner_df \<or> empty renter_df \<or>
         calculate_affordability_metrics homeowner_df renter_df = [] then []
      else rev (slice_from
        (sorted_valid_results (calculate_affordability_metrics homeowner_df renter_df)) (- 10)))"
  by (simp add: get_affordability_summary_def Let_def)

lemma most_affordable_valid:
  assumes "r \<in> set (mostAffordable (get_affordability_summary homeowner_df renter_df))"
  shows "affordabilityGap r \<noteq> None"
proof (cases "empty homeowner_df \<or> empty renter_df \<or>
         calculate_affordability_metrics homeowner_df renter_df = []")
  case True
  with assms show ?thesis by (simp only: most_affordable_eq if_True set_simps empty_iff)
next
  case False
  with assms have "r \<in> set (rev (slice_from
        (sorted_valid_results (calculate_affordability_metrics homeowner_df renter_df)) (- 10)))"
    by (simp only: most_affordable_eq if_False)
  then have "r \<in> set (slice_from
        (sorted_valid_results (calculate_affordability_metrics homeowner_df renter_df)) (- 10))"
    by (simp only: set_rev)
  then have
    "r \<in> set (sorted_valid_results (calculate_affordability_metrics homeowner_df renter_df))"
    by (rule subsetD[OF set_slice_from])
  then show ?thesis by (simp only: set_sorted_valid_results mem_Collect_eq) simp
qed

lemma least_affordable_eq:
  "leastAffordable (get_affordability_summary homeowner_df renter_df) =
     (if empty homeowner_df \<or> empty renter_df \<or>
         calculate_affordability_metrics homeowner_df renter_df = [] then []
      else slice_to
        (sorted_valid_results (calculate_affordability_metrics homeowner_df renter_df) @
         invalid_results (calculate_affordability_metrics homeowner_df renter_df)) 10)"
  by (simp add: get_affordability_summary_def Let_def)

lemma sample_gapless_metrics:
  "calculate_affordability_metrics
     (sample_frame [(''A'', Some 5), (''B'', None)])
     (sample_frame [(''A'', Some 3), (''B'', Some 2)]) =
   [\<lparr> af_region = ''A'', homeownerAffordability = Some 5, renterAffordability = 3,
      affordabilityGap = Some 2 \<rparr>,
    \<lparr> af_region = ''B'', homeownerAffordability = None, renterAffordability = 2,
      affordabilityGap = None \<rparr>]"
  by (simp add: calculate_affordability_metrics_def sample_empty sample_dates sample_latest
      List.map_filter_def affordability_row_def sorted_valid_results_def invalid_results_def
      sorted_desc_def Let_def)

subsection \<open>The claims on the Affordability Merger\<close>

text \<open>
  C4, as stated, fails: a region of the homeowner table with no row in the renter table is
  skipped at the first \<open>continue\<close> of the loop, and no result is emitted for it, with or
  without a gap.
\<close>

theorem merger_no_renter_counterexample:
  "''A'' \<in> RegionName ` set (rows (sample_frame [(''A'', Some 5), (''B'', Some 4)])) \<and>
   ''A'' \<notin> RegionName ` set (rows (sample_frame [(''B'', Some 3)])) \<and>
   \<not> (\<exists>res \<in> set (calculate_affordability_metrics
                    (sample_frame [(''A'', Some 5), (''B'', Some 4)])
                    (sample_frame [(''B'', Some 3)])).
         af_region res = ''A'' \<and> affordabilityGap res = None)"
  by (simp add: sample_no_renter_metrics)

text \<open>
  C4, amended. A region that has no row in the renter table gets no result from the
  Affordability Merger. In the list the merger returns, every result with
  \<open>affordabilityGap = None\<close> is placed after all results that have a gap. Such a result is
  emitted for a row of the homeowner table whose value at the latest date is missing or
  zero while the first renter row of the same region has a value there that is present
  and not zero.
\<close>

theorem merger_gapless:
  "(reg \<notin> RegionName ` set (rows renter_df) \<longrightarrow>
      reg \<notin> af_region ` set (calculate_affordability_metrics homeowner_df renter_df)) \<and>
   (\<forall>i j. i < j \<and> j < length (calculate_affordability_metrics homeowner_df renter_df) \<and>
       affordabilityGap (calculate_affordability_metrics homeowner_df renter_df ! i) = None \<longrightarrow>
       affordabilityGap (calculate_affordability_metrics homeowner_df renter_df ! j) = None) \<and>
   (\<not> empty homeowner_df \<and> \<not> empty renter_df \<and> date_columns homeowner_df \<noteq> [] \<and>
    row \<in> set (rows homeowner_df) \<and>
    find (\<lambda>r. RegionName r = RegionName row) (rows renter_df) = Some renter_row \<and>
    latest_column homeowner_df \<in> set (columns renter_df) \<and>
    cell renter_row (latest_column homeowner_df) = Some v \<and> v \<noteq> 0 \<and>
    (cell row (latest_column homeowner_df) = None \<or>
     cell row (latest_column homeowner_df) = Some 0) \<longrightarrow>
      \<lparr> af_region = RegionName row, homeownerAffordability = None,
        renterAffordability = v, affordabilityGap = None \<rparr>
      \<in> set (calculate_affordability_metrics homeowner_df renter_df))"
proof (intro conjI impI allI)
  assume n: "reg \<notin> RegionName ` set (rows renter_df)"
  show "reg \<notin> af_region ` set (calculate_affordability_metrics homeowner_df renter_df)"
  proof
    assume "reg \<in> af_region ` set (calculate_affordability_metrics homeowner_df renter_df)"
    then obtain res where
      "res \<in> set (calculate_affordability_metrics homeowner_df renter_df)" "af_region res = reg"
      by auto
    with calculate_affordability_metrics_mem[of res] affordability_row_region n
    show False by metis
  qed
next
  fix i j
  assume a: "i < j \<and> j < length (calculate_affordability_metrics homeowner_df renter_df) \<and>
       affordabilityGap (calculate_affordability_metrics homeowner_df renter_df ! i) = None"
  obtain rs where "calculate_affordability_metrics homeowner_df renter_df =
         sorted_valid_results rs @ invalid_results rs"
    using calculate_affordability_metrics_split by blast
  with a gapless_after_valid[of i j rs]
  show "affordabilityGap (calculate_affordability_metrics homeowner_df renter_df ! j) = None"
    by simp
next
  assume a: "\<not> empty homeowner_df \<and> \<not> empty renter_df \<and> date_columns homeowner_df \<noteq> [] \<and>
    row \<in> set (rows homeowner_df) \<and>
    find (\<lambda>r. RegionName r = RegionName row) (rows renter_df) = Some renter_row \<and>
    latest_column homeowner_df \<in> set (columns renter_df) \<and>
    cell renter_row (latest_column homeowner_df) = Some v \<and> v \<noteq> 0 \<and>
    (cell row (latest_column homeowner_df) = None \<or>
     cell row (latest_column homeowner_df) = Some 0)"
  then have "affordability_row renter_df (latest_column homeowner_df) row =
           Some \<lparr> af_region = RegionName row, homeownerAffordability = None,
                  renterAffordability = v, affordabilityGap = None \<rparr>"
    by (intro affordability_row_gapless) auto
  with a show "\<lparr> af_region = RegionName row, homeownerAffordability = None,
        renterAffordability = v, affordabilityGap = None \<rparr>
      \<in> set (calculate_affordability_metrics homeowner_df renter_df)"
    by (auto simp: calculate_affordability_metrics_def Let_def set_map_filter_eq)
qed

theorem merger_gapless_witness:
  "''A'' \<notin> RegionName ` set (rows (sample_frame [(''B'', Some 3), (''C'', Some 2)])) \<and>
   ''A'' \<notin> af_region ` set (calculate_affordability_metrics
      (sample_frame [(''A'', Some 5), (''B'', Some 4), (''C'', None)])
      (sample_frame [(''B'', Some 3), (''C'', Some 2)])) \<and>
   \<lparr> af_region = ''C'', homeownerAffordability = None, renterAffordability = 2,
     affordabilityGap = None \<rparr>
   \<in> set (calculate_affordability_metrics
      (sample_frame [(''A'', Some 5), (''B'', Some 4), (''C'', None)])
      (sample_frame [(''B'', Some 3), (''C'', Some 2)]))"
proof -
  let ?H = "sample_frame [(''A'', Some 5), (''B'', Some 4), (''C'', None)]"
  let ?R = "sample_frame [(''B'', Some 3), (''C'', Some 2)]"
  let ?row = "\<lparr> RegionName = ''C'', cell = (\<lambda>c. None :: rat option) \<rparr>"
  let ?rrow = "\<lparr> RegionName = ''C'', cell = (\<lambda>c. Some (2 :: rat)) \<rparr>"
  have h1: "''A'' \<notin> RegionName ` set (rows ?R)" by simp
  have h3: "\<not> empty ?H \<and> \<not> empty ?R \<and> date_columns ?H \<noteq> [] \<and>
    ?row \<in> set (rows ?H) \<and>
    find (\<lambda>r. RegionName r = RegionName ?row) (rows ?R) = Some ?rrow \<and>
    latest_column ?H \<in> set (columns ?R) \<and>
    cell ?rrow (latest_column ?H) = Some 2 \<and> (2 :: rat) \<noteq> 0 \<and>
    (cell ?row (latest_column ?H) = None \<or> cell ?row (latest_column ?H) = Some 0)"
    by (simp add: sample_empty sample_dates sample_latest)
  note T = merger_gapless[where reg = "''A''" and renter_df = ?R and homeowner_df = ?H
      and row = ?row and renter_row = ?rrow and v = 2]
  note a = T[THEN conjunct1, THEN mp, OF h1]
  note c = T[THEN conjunct2, THEN conjunct2, THEN mp, OF h3]
  from h1 a c show ?thesis by simp
qed

text \<open>
  C5. A region without a gap never appears in the \<open>mostAffordable\<close> list, which is cut
  from the sorted results that have a gap. The \<open>leastAffordable\<close> list is cut from the list
  with the gapless results appended, and holds them whenever fewer than ten results have a
  gap: with a region \<open>A\<close> with a gap and a region \<open>B\<close> whose homeowner value is missing,
  \<open>leastAffordable\<close> holds both.
\<close>

theorem summary_gapless_in_least:
  "leastAffordable (get_affordability_summary
     (sample_frame [(''A'', Some 5), (''B'', None)])
     (sample_frame [(''A'', Some 3), (''B'', Some 2)])) =
       [\<lparr> af_region = ''A'', homeownerAffordability = Some 5, renterAffordability = 3,
          affordabilityGap = Some 2 \<rparr>,
        \<lparr> af_region = ''B'', homeownerAffordability = None, renterAffordability = 2,
          affordabilityGap = None \<rparr>] \<and>
   mostAffordable (get_affordability_summary
     (sample_frame [(''A'', Some 5), (''B'', None)])
     (sample_frame [(''A'', Some 3), (''B'', Some 2)])) =
       [\<lparr> af_region = ''A'', homeownerAffordability = Some 5, renterAffordability = 3,
          affordabilityGap = Some 2 \<rparr>]"
  unfolding least_affordable_eq most_affordable_eq sample_gapless_metrics
  by (simp add: sample_empty sorted_valid_results_def invalid_results_def sorted_desc_def
      slice_to_def slice_from_def)

section \<open>Properties of the Trend Estimator\<close>

lemma length_map_filter_enumerate:
  "length (List.map_filter (\<lambda>(i, x). case x of Some (Num v) \<Rightarrow> Some (i, v) | _ \<Rightarrow> None)
       (enumerate n data)) =
   length (filter (\<lambda>x. x \<noteq> None \<and> x \<noteq> Some NaN) data)"
proof (induction data arbitrary: n)
  case Nil
  show ?case by (simp add: List.map_filter_def)
next
  case (Cons x xs)
  from Cons[of "Suc n"] show ?case
    by (cases x rule: option.exhaust; (cases "the x")?)
       (auto simp: List.map_filter_def split: option.splits num.splits)
qed

lemma length_valid_data:
  "length (valid_data data) = length (filter (\<lambda>x. x \<noteq> None \<and> x \<noteq> Some NaN) data)"
  unfolding valid_data_def by (rule length_map_filter_enumerate)

lemma length_valid_data_le: "length (valid_data data) \<le> length data"
  by (simp add: length_valid_data)

subsection \<open>The claim on the Trend Estimator\<close>

text \<open>
  C7. On an input with fewer than three non-missing points (elements that are neither
  \<open>None\<close> nor \<open>NaN\<close>), the Trend Estimator returns \<open>None\<close> at every position, in a list as
  long as the input.
\<close>

theorem trend_too_few_points:
  assumes "length (filter (\<lambda>x. x \<noteq> None \<and> x \<noteq> Some NaN) data) < 3"
  shows "calculate_regression_trend data = replicate (length data) None"
  using assms by (simp add: calculate_regression_trend_def length_valid_data)

theorem trend_too_few_points_witness:
  "length (filter (\<lambda>x. x \<noteq> None \<and> x \<noteq> Some NaN)
      [None, Some (Num 1), Some NaN, Some (Num 2), None]) < 3 \<and>
   calculate_regression_trend [None, Some (Num 1), Some NaN, Some (Num 2), None] =
     [None, None, None, None, None]"
proof -
  have h: "length (filter (\<lambda>x. x \<noteq> None \<and> x \<noteq> Some NaN)
      [None, Some (Num 1), Some NaN, Some (Num 2), None]) < 3" by simp
  from trend_too_few_points[OF h] h show ?thesis by (simp add: numeral_eq_Suc)
qed

section \<open>Properties of the metrics endpoint\<close>

lemma fetch_zip_rows:
  assumes "r \<in> set (fetch_realtor_data ''zip'' response)"
  shows "\<exists>s. region_col r = StrCell s"
proof -
  have a: "\<exists>s. astype_str c = StrCell s" for c
    by (cases c) simp_all
  from assms obtain r' where "r = r'\<lparr>region_col := astype_str (region_col r')\<rparr>"
    by (auto simp: fetch_realtor_data_def Let_def split: option.splits if_splits)
  with a[of "region_col r'"] show ?thesis by auto
qed

lemma fetch_zip_no_int:
  "filter (\<lambda>r. region_col r = IntCell k) (fetch_realtor_data ''zip'' response) = []"
  by (auto simp: filter_empty_conv dest: fetch_zip_rows)

lemma chunks_sample: "chunks 10000 zip_sample = [zip_sample]"
  by (subst chunks.simps, simp add: zip_sample_def, subst chunks.simps, simp)

lemma fetch_zip_sample:
  "fetch_realtor_data ''zip'' (Some zip_sample) =
     [\<lparr> region_col = StrCell ''10001'', month_date_yyyymm = 202401, active_listing_count = 120,
        pending_listing_count = 60, median_days_on_market = 40, price_reduced_count = 10 \<rparr>]"
  by (simp add: fetch_realtor_data_def chunks_sample Let_def)
     (simp add: zip_sample_def dropna_def List.map_filter_def)

lemma county_sample:
  "\<exists>m. get_metrics int_py ''county'' ''10001'' (fetch_realtor_data ''county'' (Some zip_sample))
     = Metrics m"
  by (simp add: get_metrics_def fetch_realtor_data_def chunks_sample Let_def)
     (simp add: zip_sample_def dropna_def List.map_filter_def)

subsection \<open>The claim on the metrics endpoint\<close>

text \<open>
  C9. For the granularity \<open>zip\<close>, \<open>get_metrics\<close> returns the empty object for every region
  string and every fetched table, empty or not: the fetcher makes every cell of
  \<open>postal_code\<close> a string, the handler compares the column with \<open>int(region)\<close>, and no
  string equals an integer; a region string on which \<open>int\<close> raises gives the empty object
  through the outer \<open>except\<close>.
\<close>

theorem zip_metrics_empty:
  "get_metrics int_py ''zip'' reg (fetch_realtor_data ''zip'' response) = Empty_Object"
  by (simp add: get_metrics_def fetch_zip_no_int split: option.splits)

theorem zip_metrics_empty_witness:
  "fetch_realtor_data ''zip'' (Some zip_sample) \<noteq> [] \<and>
   get_metrics (\<lambda>s. Some 10001) ''zip'' ''10001'' (fetch_realtor_data ''zip'' (Some zip_sample))
     = Empty_Object"
  using zip_metrics_empty[of "\<lambda>s. Some 10001" "''10001''" "Some zip_sample"]
  by (simp add: fetch_zip_sample)

end
